theory Spec2Isabelle
  imports Complex_Main "HOL-Library.AList" "HOL-Library.Sublist"
begin

section \<open>Values\<close>

text \<open>
  The values that \<^verbatim>\<open>json.loads\<close> produces, which are also the values of the consumed
  message and of every record: \<^verbatim>\<open>None\<close>, booleans, integers, finite floats (by their exact
  rational value), strings, lists and dictionaries. A dictionary is an association
  list with distinct keys in insertion order.
\<close>

datatype json =
    JNull
  | JBool bool
  | JInt int
  | JFloat rat
  | JStr string
  | JArr "json list"
  | JObj "(string \<times> json) list"

type_synonym dict = "(string \<times> json) list"

text \<open>Python's truth value of an object, as tested by \<^verbatim>\<open>if x:\<close> and \<^verbatim>\<open>not x\<close>.\<close>

fun truthy :: "json \<Rightarrow> bool" where
  "truthy JNull = False"
| "truthy (JBool b) = b"
| "truthy (JInt i) = (i \<noteq> 0)"
| "truthy (JFloat r) = (r \<noteq> 0)"
| "truthy (JStr s) = (s \<noteq> [])"
| "truthy (JArr xs) = (xs \<noteq> [])"
| "truthy (JObj kvs) = (kvs \<noteq> [])"

text \<open>\<^verbatim>\<open>d.get(k, default)\<close> and \<^verbatim>\<open>d.get(k)\<close>, whose default is \<^verbatim>\<open>None\<close>.\<close>

definition get_default :: "dict \<Rightarrow> string \<Rightarrow> json \<Rightarrow> json" where
  "get_default d k dflt = (case map_of d k of None \<Rightarrow> dflt | Some v \<Rightarrow> v)"

definition get :: "dict \<Rightarrow> string \<Rightarrow> json" where
  "get d k = get_default d k JNull"

section \<open>HostFilter: \<^verbatim>\<open>has_canonical_facts\<close>\<close>

definition CANONICAL_FACTS :: "string list" where
  "CANONICAL_FACTS =
     [''insights_client_id'', ''bios_uuid'', ''ip_addresses'', ''mac_addresses'',
      ''vm_uuid'', ''etc_machine_id'', ''subscription_manager_id'']"

text \<open>The loop \<^verbatim>\<open>for fact in CANONICAL_FACTS\<close>, returning at the first fact that is set.\<close>

fun facts_loop :: "string list \<Rightarrow> dict \<Rightarrow> bool" where
  "facts_loop [] host = False"
| "facts_loop (a_fact # facts) host =
     (if truthy (get host a_fact) then True else facts_loop facts host)"

definition has_canonical_facts :: "dict \<Rightarrow> bool" where
  "has_canonical_facts host = facts_loop CANONICAL_FACTS host"

text \<open>
  What the claim calls a non-empty value: a value other than Python's empty ones
  (\<^verbatim>\<open>None\<close>, \<^verbatim>\<open>False\<close>, zero, the empty string, the empty list and the empty dictionary).
\<close>

definition empty_value :: "json \<Rightarrow> bool" where
  "empty_value v =
     (v = JNull \<or> v = JBool False \<or> v = JInt 0 \<or> v = JFloat 0 \<or> v = JStr [] \<or> v = JArr []
      \<or> v = JObj [])"

text \<open>A key is set in a record when it is present with a non-empty value.\<close>

definition fact_set :: "dict \<Rightarrow> string \<Rightarrow> bool" where
  "fact_set host k = (case map_of host k of None \<Rightarrow> False | Some v \<Rightarrow> \<not> empty_value v)"

section \<open>Exceptions, log and state\<close>

text \<open>
  Modelled from the spec: the classes of \<^verbatim>\<open>yuptoo.lib.exceptions\<close> are imported by the
  source but declared elsewhere. Following the error kinds of the spec they are four
  distinct exception classes, none a subclass of \<^verbatim>\<open>ValueError\<close>,
  \<^verbatim>\<open>tarfile.ReadError\<close> or \<^verbatim>\<open>KafkaException\<close>. The string of
  \<^verbatim>\<open>FailDownloadException\<close> and \<^verbatim>\<open>FailExtractException\<close> is the message of the
  raising statement; \<^verbatim>\<open>KafkaMsgHandlerError\<close> carries the error it wraps, the account
  and the report platform id. The other constructors are the library's exceptions that
  the source can meet; \<^verbatim>\<open>OtherError\<close> stands for any class outside those named here.
\<close>

datatype exn =
    FailDownloadException string
  | FailExtractException string
  | QPCReportException
  | KafkaMsgHandlerError exn json json
  | KafkaException
  | ReadError
  | UnicodeDecodeError
  | JSONDecodeError
  | ValueError
  | KeyError string
  | TypeError
  | AttributeError
  | UnboundLocalError string
  | ZeroDivisionError
  | OtherError string

text \<open>\<^verbatim>\<open>except ValueError\<close> also catches the two subclasses that occur here.\<close>

fun is_ValueError :: "exn \<Rightarrow> bool" where
  "is_ValueError ValueError = True"
| "is_ValueError UnicodeDecodeError = True"
| "is_ValueError JSONDecodeError = True"
| "is_ValueError _ = False"

fun is_FailExtractException :: "exn \<Rightarrow> bool" where
  "is_FailExtractException (FailExtractException msg) = True"
| "is_FailExtractException _ = False"

fun is_FailDownloadException :: "exn \<Rightarrow> bool" where
  "is_FailDownloadException (FailDownloadException msg) = True"
| "is_FailDownloadException _ = False"

datatype level = INFO | WARNING | ERROR | EXCEPTION

text \<open>
  \<^verbatim>\<open>request_obj\<close> is created by \<^verbatim>\<open>process_report\<close> with the keys \<^verbatim>\<open>account\<close>,
  \<^verbatim>\<open>b64_identity\<close> and \<^verbatim>\<open>request_id\<close>; the collaborators that receive it may add
  keys, which are kept in \<open>extra\<close> (the source reads \<^verbatim>\<open>report_platform_id\<close> there);
  they are taken not to replace or delete the three keys set at creation.
\<close>

record request =
  account :: json
  b64_identity :: json
  request_id :: json
  extra :: dict

text \<open>The message built by \<^verbatim>\<open>upload_to_host_inventory_via_kafka\<close>.\<close>

record envelope =
  operation :: string
  data :: dict
  platform_metadata :: dict

text \<open>
  The state of one run: the log lines written so far (level and message), the messages
  handed to the producer, the number of uuids drawn, and the one \<^verbatim>\<open>request_obj\<close> that
  all functions of a run share by reference.
\<close>

record state =
  logged :: "(level \<times> string) list"
  published :: "envelope list"
  uuids_drawn :: nat
  request_obj :: request

definition log_to :: "level \<Rightarrow> string \<Rightarrow> state \<Rightarrow> state" where
  "log_to lv msg s = s\<lparr>logged := logged s @ [(lv, msg)]\<rparr>"

text \<open>A collaborator leaves \<^verbatim>\<open>request_obj\<close> with the added keys \<open>ex\<close>.\<close>

definition set_extra :: "dict \<Rightarrow> state \<Rightarrow> state" where
  "set_extra ex s = s\<lparr>request_obj := (request_obj s)\<lparr>extra := ex\<rparr>\<rparr>"

section \<open>The archive and the external collaborators\<close>

text \<open>
  An archive member is its name and what reading it gives: \<^verbatim>\<open>read()\<close> raises,
  \<^verbatim>\<open>decode('utf-8')\<close> raises \<^verbatim>\<open>UnicodeDecodeError\<close>, \<^verbatim>\<open>json.loads\<close> raises
  \<^verbatim>\<open>JSONDecodeError\<close>, or the text parses to a value. The downloaded bytes are what
  \<^verbatim>\<open>tarfile.open\<close> and \<^verbatim>\<open>getmembers\<close> make of them: an exception or the member list.
\<close>

datatype contents = Unreadable exn | Undecodable | Invalid_json | Parsed json

record member =
  name :: string
  payload :: contents

type_synonym tar_bytes = "exn + member list"

text \<open>
  The world outside the source file: the HTTP download, the manifest validator
  (which returns the mapping from slice identifier to host count or raises, and the
  added keys it leaves in \<^verbatim>\<open>request_obj\<close>), the uuid generator, and for each message whether the
  Kafka producer's constructor, \<^verbatim>\<open>json.dumps\<close>, \<^verbatim>\<open>produce\<close>, \<^verbatim>\<open>poll\<close> and
  \<^verbatim>\<open>flush\<close> raise.
\<close>

record world =
  requests_get :: "json \<Rightarrow> exn + tar_bytes"
  validate_metadata_file :: "member list \<Rightarrow> member \<Rightarrow> request \<Rightarrow> dict \<times> (exn + (string \<times> int) list)"
  uuid4 :: "nat \<Rightarrow> string"
  Producer_raises :: "envelope \<Rightarrow> exn option"
  dumps_raises :: "envelope \<Rightarrow> exn option"
  produce_raises :: "envelope \<Rightarrow> exn option"
  poll_raises :: "envelope \<Rightarrow> exn option"
  flush_raises :: "envelope \<Rightarrow> exn option"

section \<open>SliceExtractor: \<^verbatim>\<open>extract_report_slices\<close>\<close>

text \<open>Python's \<^verbatim>\<open>len\<close>; a \<open>char\<close> of a string stands for one code point.\<close>

fun len :: "json \<Rightarrow> exn + int" where
  "len (JStr s) = Inr (int (length s))"
| "len (JArr xs) = Inr (int (length xs))"
| "len (JObj kvs) = Inr (int (length kvs))"
| "len _ = Inl TypeError"

text \<open>
  The scan \<^verbatim>\<open>for file in files\<close>: the last member whose name has \<^verbatim>\<open>/metadata.json\<close>
  in it or is \<^verbatim>\<open>metadata.json\<close> is the metadata file; every other member with
  \<^verbatim>\<open>.json\<close> in its name is a data file. \<^verbatim>\<open>a in b\<close> on strings is \<open>sublist a b\<close>.
\<close>

fun scan_files :: "member list \<Rightarrow> member list \<Rightarrow> member option \<Rightarrow> member list \<times> member option" where
  "scan_files [] json_files metadata_file = (json_files, metadata_file)"
| "scan_files (file # files) json_files metadata_file =
     (if sublist ''/metadata.json'' (name file) \<or> name file = ''metadata.json''
      then scan_files files json_files (Some file)
      else if sublist ''.json'' (name file)
      then scan_files files (json_files @ [file]) metadata_file
      else scan_files files json_files metadata_file)"

text \<open>
  The body of \<^verbatim>\<open>if report_id in file.name\<close>: read, decode, parse and compare with the
  manifest. \<open>Inr\<close> is the list \<^verbatim>\<open>report_files\<close> after the iteration (unchanged after
  \<^verbatim>\<open>continue\<close>), \<open>Inl\<close> an exception that leaves the loops.
\<close>

definition read_report_slice ::
  "string \<Rightarrow> int \<Rightarrow> member \<Rightarrow> json list \<Rightarrow> state \<Rightarrow> state \<times> (exn + json list)" where
  "read_report_slice report_id num_hosts file report_files s =
     (let s1 = log_to INFO ''Attempting to decode the file'' s in
      case payload file of
        Unreadable e \<Rightarrow> (s1, Inl e)
      | Undecodable \<Rightarrow>
          (log_to EXCEPTION ''Attempting to decode the file resulted in the following error. Discarding file.'' s1,
           Inr report_files)
      | Invalid_json \<Rightarrow> (log_to INFO ''Successfully decoded the file'' s1, Inl JSONDecodeError)
      | Parsed report_slice_json \<Rightarrow>
          (let s2 = log_to INFO ''Successfully decoded the file'' s1 in
           case report_slice_json of
             JObj d \<Rightarrow>
               (let report_slice_id = get_default d ''report_slice_id'' (JStr []);
                    hosts = get_default d ''hosts'' (JObj [])
                in case len hosts of
                     Inl e \<Rightarrow> (s2, Inl e)
                   | Inr n \<Rightarrow>
                       if report_slice_id \<noteq> JStr report_id \<or> n \<noteq> num_hosts
                       then (log_to WARNING ''EXTRACT REPORT FROM TAR'' s2, Inr report_files)
                       else (s2, Inr (report_files @ [report_slice_json])))
           | _ \<Rightarrow> (s2, Inl AttributeError)))"

text \<open>\<^verbatim>\<open>for file in json_files\<close>, for one manifest item.\<close>

fun files_loop ::
  "string \<Rightarrow> int \<Rightarrow> member list \<Rightarrow> json list \<Rightarrow> state \<Rightarrow> state \<times> (exn + json list)" where
  "files_loop report_id num_hosts [] report_files s = (s, Inr report_files)"
| "files_loop report_id num_hosts (file # files) report_files s =
     (if sublist report_id (name file)
      then (case read_report_slice report_id num_hosts file report_files s of
              (s', Inl e) \<Rightarrow> (s', Inl e)
            | (s', Inr report_files') \<Rightarrow> files_loop report_id num_hosts files report_files' s')
      else files_loop report_id num_hosts files report_files s)"

text \<open>\<^verbatim>\<open>for report_id, num_hosts in valid_slice_ids.items()\<close>.\<close>

fun slice_ids_loop ::
  "(string \<times> int) list \<Rightarrow> member list \<Rightarrow> json list \<Rightarrow> state \<Rightarrow> state \<times> (exn + json list)" where
  "slice_ids_loop [] json_files report_files s = (s, Inr report_files)"
| "slice_ids_loop ((report_id, num_hosts) # items) json_files report_files s =
     (case files_loop report_id num_hosts json_files report_files s of
        (s', Inl e) \<Rightarrow> (s', Inl e)
      | (s', Inr report_files') \<Rightarrow> slice_ids_loop items json_files report_files' s')"

text \<open>
  The inner \<^verbatim>\<open>try\<close>: validate the manifest, run the loops, and turn a \<^verbatim>\<open>ValueError\<close>
  into \<^verbatim>\<open>FailExtractException\<close>.
\<close>

definition validated_slices ::
  "world \<Rightarrow> member list \<Rightarrow> member list \<Rightarrow> member \<Rightarrow> state \<Rightarrow> state \<times> (exn + json list)" where
  "validated_slices w files json_files metadata_file s =
     (case validate_metadata_file w files metadata_file (request_obj s) of
        (ex, Inl e) \<Rightarrow>
          if is_ValueError e
          then (set_extra ex s, Inl (FailExtractException ''Report is not valid JSON''))
          else (set_extra ex s, Inl e)
      | (ex, Inr valid_slice_ids) \<Rightarrow>
          (case slice_ids_loop valid_slice_ids json_files [] (set_extra ex s) of
             (s', Inl e) \<Rightarrow>
               if is_ValueError e
               then (s', Inl (FailExtractException ''Report is not valid JSON''))
               else (s', Inl e)
           | (s', Inr report_files) \<Rightarrow> (s', Inr report_files)))"

text \<open>The outer \<^verbatim>\<open>try\<close> block.\<close>

definition extract_try :: "world \<Rightarrow> tar_bytes \<Rightarrow> state \<Rightarrow> state \<times> (exn + json list)" where
  "extract_try w report_tar s =
     (case report_tar of
        Inl e \<Rightarrow> (s, Inl e)
      | Inr files \<Rightarrow>
          (case scan_files files [] None of
             (json_files, Some metadata_file) \<Rightarrow>
               if json_files \<noteq> []
               then validated_slices w files json_files metadata_file s
               else (s, Inl (FailExtractException
                       ''Tar does not contain valid JSON metadata & report files''))
           | (json_files, None) \<Rightarrow>
               (s, Inl (FailExtractException
                  ''Tar does not contain valid JSON metadata & report files''))))"

text \<open>
  The function with its three handlers. The last handler only logs, so the function
  returns \<^verbatim>\<open>None\<close> there: the result is \<open>Inr None\<close>, and \<open>Inr (Some report_files)\<close>
  for a returned list.
\<close>

definition extract_report_slices ::
  "world \<Rightarrow> tar_bytes \<Rightarrow> state \<Rightarrow> state \<times> (exn + json list option)" where
  "extract_report_slices w report_tar s =
     (case extract_try w report_tar s of
        (s', Inr report_files) \<Rightarrow> (s', Inr (Some report_files))
      | (s', Inl err) \<Rightarrow>
          if is_FailExtractException err then (s', Inl err)
          else if err = ReadError
          then (s', Inl (FailExtractException ''Unexpected error reading tar file''))
          else (log_to ERROR ''Unexpected error reading tar file'' s', Inr None))"

section \<open>Publisher: \<^verbatim>\<open>send_message\<close> and \<^verbatim>\<open>upload_to_host_inventory_via_kafka\<close>\<close>

text \<open>\<^verbatim>\<open>d[k]\<close>, which raises \<^verbatim>\<open>KeyError\<close> for a missing key.\<close>

definition subscript :: "dict \<Rightarrow> string \<Rightarrow> exn + json" where
  "subscript d k = (case map_of d k of None \<Rightarrow> Inl (KeyError k) | Some v \<Rightarrow> Inr v)"

text \<open>
  The \<^verbatim>\<open>try\<close> block of \<^verbatim>\<open>send_message\<close>: the new state, whether \<^verbatim>\<open>producer\<close> was
  bound, and the exception raised. A message is published once \<^verbatim>\<open>produce\<close> has taken it.
\<close>

definition send_try :: "world \<Rightarrow> envelope \<Rightarrow> state \<Rightarrow> state \<times> bool \<times> exn option" where
  "send_try w msg s =
     (case Producer_raises w msg of
        Some e \<Rightarrow> (s, False, Some e)
      | None \<Rightarrow>
          (case dumps_raises w msg of
             Some e \<Rightarrow> (s, True, Some e)
           | None \<Rightarrow>
               (case produce_raises w msg of
                  Some e \<Rightarrow> (s, True, Some e)
                | None \<Rightarrow> (s\<lparr>published := published s @ [msg]\<rparr>, True, poll_raises w msg))))"

text \<open>
  \<^verbatim>\<open>send_message\<close>: \<^verbatim>\<open>except KafkaException\<close> logs and drops the exception; the
  \<^verbatim>\<open>finally\<close> clause calls \<^verbatim>\<open>producer.flush()\<close>, which raises
  \<^verbatim>\<open>UnboundLocalError\<close> when the constructor had raised, and whose exception replaces
  a pending one. \<open>None\<close> is a normal return.
\<close>

definition send_message :: "world \<Rightarrow> envelope \<Rightarrow> json \<Rightarrow> state \<Rightarrow> state \<times> exn option" where
  "send_message w msg req_id s =
     (case send_try w msg s of
        (s1, producer_bound, raised) \<Rightarrow>
          (let s2 = (if raised = Some KafkaException
                     then log_to EXCEPTION ''Failed to produce message to topic'' s1 else s1);
               pending = (if raised = Some KafkaException then None else raised)
           in if \<not> producer_bound then (s2, Some (UnboundLocalError ''producer''))
              else (case flush_raises w msg of
                      Some e \<Rightarrow> (s2, Some e)
                    | None \<Rightarrow> (s2, pending))))"

text \<open>The \<^verbatim>\<open>try\<close> block of \<^verbatim>\<open>upload_to_host_inventory_via_kafka\<close>.\<close>

definition upload_try :: "world \<Rightarrow> dict \<Rightarrow> state \<Rightarrow> state \<times> exn option" where
  "upload_try w host s =
     (case subscript host ''system_unique_id'' of
        Inl e \<Rightarrow> (s, Some e)
      | Inr uid \<Rightarrow>
          send_message w
            \<lparr>operation = ''add_host'', data = host,
             platform_metadata =
               [(''request_id'', uid), (''b64_identity'', b64_identity (request_obj s))]\<rparr>
            (request_id (request_obj s)) s)"

text \<open>
  The function with its handler, which logs and raises \<^verbatim>\<open>KafkaMsgHandlerError\<close>; the
  arguments of the new exception are \<^verbatim>\<open>host['account']\<close> and
  \<^verbatim>\<open>request_obj['report_platform_id']\<close>, either of which can raise \<^verbatim>\<open>KeyError\<close>.
\<close>

definition upload_to_host_inventory_via_kafka :: "world \<Rightarrow> dict \<Rightarrow> state \<Rightarrow> state \<times> exn option" where
  "upload_to_host_inventory_via_kafka w host s =
     (case upload_try w host s of
        (s1, None) \<Rightarrow> (s1, None)
      | (s1, Some err) \<Rightarrow>
          (let s2 = log_to ERROR ''UPLOAD TO INVENTORY VIA KAFKA - The following error occurred'' s1 in
           case subscript host ''account'' of
             Inl e \<Rightarrow> (s2, Some e)
           | Inr acct \<Rightarrow>
               (case subscript (extra (request_obj s2)) ''report_platform_id'' of
                  Inl e \<Rightarrow> (s2, Some e)
                | Inr rp \<Rightarrow> (s2, Some (KafkaMsgHandlerError err acct rp)))))"

section \<open>TransformationChain and Orchestrator: \<^verbatim>\<open>process_report\<close>\<close>

text \<open>
  \<^verbatim>\<open>transformed_obj\<close>, with its three lists. A modifier is \<^verbatim>\<open>run(host, transformed_obj,
  request_obj)\<close> of one module of \<^verbatim>\<open>yuptoo.modifiers\<close>: it raises, or leaves the three
  objects changed (of \<^verbatim>\<open>request_obj\<close>, the added keys).
\<close>

record transformed =
  removed :: "string list"
  modified :: "string list"
  missing_data :: "string list"

type_synonym modifier = "dict \<Rightarrow> transformed \<Rightarrow> request \<Rightarrow> exn + dict \<times> transformed \<times> dict"

text \<open>The configuration values of \<^verbatim>\<open>yuptoo.lib.config\<close> and the registered modifiers.\<close>

record config =
  HOSTS_TRANSFORMATION_ENABLED :: bool
  HOSTS_UPLOAD_FUTURES_COUNT :: int
  get_modifiers :: "modifier list"

text \<open>The loop \<^verbatim>\<open>for modifier in get_modifiers()\<close>.\<close>

fun run_modifiers :: "modifier list \<Rightarrow> dict \<Rightarrow> transformed \<Rightarrow> state \<Rightarrow> state \<times> (exn + dict \<times> transformed)" where
  "run_modifiers [] host t s = (s, Inr (host, t))"
| "run_modifiers (m # ms) host t s =
     (case m host t (request_obj s) of
        Inl e \<Rightarrow> (s, Inl e)
      | Inr (host', t', ex) \<Rightarrow> run_modifiers ms host' t' (set_extra ex s))"

fun join :: "string \<Rightarrow> string list \<Rightarrow> string" where
  "join sep [] = []"
| "join sep [x] = x"
| "join sep (x # y # ys) = x @ sep @ join sep (y # ys)"

text \<open>
  \<^verbatim>\<open>print_transformed_info\<close>; its argument is \<open>None\<close> for Python's \<^verbatim>\<open>None\<close>.
\<close>

definition print_transformed_info :: "json \<Rightarrow> transformed option \<Rightarrow> state \<Rightarrow> state \<times> exn option" where
  "print_transformed_info host_id transformed_obj s =
     (case transformed_obj of
        None \<Rightarrow> (s, None)
      | Some t \<Rightarrow>
          (let log_sections =
                 map (\<lambda>(key, value). key @ '': '' @ join '','' value)
                     (filter (\<lambda>(key, value). value \<noteq> [])
                        [(''removed'', removed t), (''modified'', modified t),
                         (''missing_data'', missing_data t)])
           in if log_sections \<noteq> []
              then (case subscript (extra (request_obj s)) ''report_platform_id'' of
                      Inl e \<Rightarrow> (s, Some e)
                    | Inr rp \<Rightarrow> (log_to INFO ''Printing Transformed Logs'' s, None))
              else (s, None)))"

text \<open>
  The local variables of \<^verbatim>\<open>process_report\<close> that the loops change. \<^verbatim>\<open>transformed_obj\<close>
  is \<open>None\<close> as long as no assignment to it has run: the only one is under
  \<^verbatim>\<open>if HOSTS_TRANSFORMATION_ENABLED\<close>. The two lists hold the record as it is when
  appended.
\<close>

record locals =
  count :: int
  candidate_hosts :: "(string \<times> dict) list"
  hosts_without_facts :: "(string \<times> dict) list"
  transformed_obj :: "transformed option"

text \<open>The branch \<^verbatim>\<open>if has_canonical_facts(host)\<close> of the loop over the hosts.\<close>

definition process_candidate ::
  "world \<Rightarrow> config \<Rightarrow> json \<Rightarrow> int \<Rightarrow> string \<Rightarrow> dict \<Rightarrow> locals \<Rightarrow> state \<Rightarrow> state \<times> (exn + locals)" where
  "process_candidate w cfg slice_id total_hosts yupana_host_id host0 l s =
     (let host1 = AList.update ''report_slice_id'' slice_id host0;
          l1 = l\<lparr>candidate_hosts := candidate_hosts l @ [(yupana_host_id, host1)]\<rparr>
      in case (if HOSTS_TRANSFORMATION_ENABLED cfg
               then (case run_modifiers (get_modifiers cfg) host1
                            \<lparr>removed = [], modified = [], missing_data = []\<rparr> s of
                       (s', Inl e) \<Rightarrow> (s', Inl e)
                     | (s', Inr (h, t)) \<Rightarrow> (s', Inr (h, Some t)))
               else (s, Inr (host1, transformed_obj l1))) of
           (s1, Inl e) \<Rightarrow> (s1, Inl e)
         | (s1, Inr (host, tobj)) \<Rightarrow>
             (let l2 = l1\<lparr>count := count l1 + 1, transformed_obj := tobj\<rparr> in
              case subscript host ''yupana_host_id'' of
                Inl e \<Rightarrow> (s1, Inl e)
              | Inr host_id \<Rightarrow>
                  (case tobj of
                     None \<Rightarrow> (s1, Inl (UnboundLocalError ''transformed_obj''))
                   | Some t \<Rightarrow>
                       (case print_transformed_info host_id (Some t) s1 of
                          (s2, Some e) \<Rightarrow> (s2, Inl e)
                        | (s2, None) \<Rightarrow>
                            (case upload_to_host_inventory_via_kafka w host s2 of
                               (s3, Some e) \<Rightarrow> (s3, Inl e)
                             | (s3, None) \<Rightarrow>
                                 if HOSTS_UPLOAD_FUTURES_COUNT cfg = 0
                                 then (s3, Inl ZeroDivisionError)
                                 else if count l2 mod HOSTS_UPLOAD_FUTURES_COUNT cfg = 0
                                         \<or> count l2 = total_hosts
                                 then (case subscript (extra (request_obj s3))
                                              ''report_platform_id'' of
                                         Inl e \<Rightarrow> (s3, Inl e)
                                       | Inr rp \<Rightarrow>
                                           (log_to INFO
                                              ''Sending hosts to the inventory service'' s3,
                                            Inr l2))
                                 else (s3, Inr l2))))))"

text \<open>
  One iteration of \<^verbatim>\<open>for host in hosts\<close>. Only a dictionary supports
  \<^verbatim>\<open>host['yupana_host_id'] = ...\<close>.
\<close>

definition process_host ::
  "world \<Rightarrow> config \<Rightarrow> json \<Rightarrow> int \<Rightarrow> json \<Rightarrow> locals \<Rightarrow> state \<Rightarrow> state \<times> (exn + locals)" where
  "process_host w cfg slice_id total_hosts host_value l s =
     (let yupana_host_id = uuid4 w (uuids_drawn s);
          s1 = s\<lparr>uuids_drawn := Suc (uuids_drawn s)\<rparr>
      in case host_value of
           JObj h \<Rightarrow>
             (let host = AList.update ''yupana_host_id'' (JStr yupana_host_id) h in
              if has_canonical_facts host
              then process_candidate w cfg slice_id total_hosts yupana_host_id host l s1
              else (s1, Inr (l\<lparr>hosts_without_facts :=
                                  hosts_without_facts l @ [(yupana_host_id, host)]\<rparr>)))
         | _ \<Rightarrow> (s1, Inl TypeError))"

fun hosts_loop ::
  "world \<Rightarrow> config \<Rightarrow> json \<Rightarrow> int \<Rightarrow> json list \<Rightarrow> locals \<Rightarrow> state \<Rightarrow> state \<times> (exn + locals)" where
  "hosts_loop w cfg slice_id total_hosts [] l s = (s, Inr l)"
| "hosts_loop w cfg slice_id total_hosts (host_value # hosts) l s =
     (case process_host w cfg slice_id total_hosts host_value l s of
        (s', Inl e) \<Rightarrow> (s', Inl e)
      | (s', Inr l') \<Rightarrow> hosts_loop w cfg slice_id total_hosts hosts l' s')"

text \<open>What \<^verbatim>\<open>for x in v\<close> iterates over.\<close>

fun iter :: "json \<Rightarrow> exn + json list" where
  "iter (JArr xs) = Inr xs"
| "iter (JObj kvs) = Inr (map (\<lambda>kv. JStr (fst kv)) kvs)"
| "iter (JStr s) = Inr (map (\<lambda>c. JStr [c]) s)"
| "iter _ = Inl TypeError"

text \<open>
  The body of \<^verbatim>\<open>for report_slice in report_json_files\<close>; it returns the local
  \<^verbatim>\<open>transformed_obj\<close>, which outlives the iteration.
\<close>

definition process_slice ::
  "world \<Rightarrow> config \<Rightarrow> json \<Rightarrow> transformed option \<Rightarrow> state \<Rightarrow> state \<times> (exn + transformed option)" where
  "process_slice w cfg report_slice tobj s =
     (case report_slice of
        JObj d \<Rightarrow>
          (let hosts = get_default d ''hosts'' (JArr []) in
           case len hosts of
             Inl e \<Rightarrow> (s, Inl e)
           | Inr total_hosts \<Rightarrow>
               (case iter hosts of
                  Inl e \<Rightarrow> (s, Inl e)
                | Inr hs \<Rightarrow>
                    (case hosts_loop w cfg (get d ''report_slice_id'') total_hosts hs
                            \<lparr>count = 0, candidate_hosts = [], hosts_without_facts = [],
                             transformed_obj = tobj\<rparr> s of
                       (s1, Inl e) \<Rightarrow> (s1, Inl e)
                     | (s1, Inr l) \<Rightarrow>
                         (let s2 = (if hosts_without_facts l \<noteq> []
                                    then log_to WARNING
                                           ''host(s) found that contain(s) 0 canonical facts'' s1
                                    else s1);
                              s3 = log_to INFO ''hosts are valid'' s2
                          in if candidate_hosts l = []
                             then (log_to ERROR
                                     ''Report does not contain any valid hosts'' s3,
                                   Inl QPCReportException)
                             else (s3, Inr (transformed_obj l))))))
      | _ \<Rightarrow> (s, Inl AttributeError))"

fun slices_loop ::
  "world \<Rightarrow> config \<Rightarrow> json list \<Rightarrow> transformed option \<Rightarrow> state \<Rightarrow> state \<times> (exn + unit)" where
  "slices_loop w cfg [] tobj s = (s, Inr ())"
| "slices_loop w cfg (report_slice # slices) tobj s =
     (case process_slice w cfg report_slice tobj s of
        (s', Inl e) \<Rightarrow> (s', Inl e)
      | (s', Inr tobj') \<Rightarrow> slices_loop w cfg slices tobj' s')"

text \<open>
  The loop of \<^verbatim>\<open>process_report\<close> over what \<^verbatim>\<open>extract_report_slices\<close> returned;
  iterating over \<^verbatim>\<open>None\<close> raises \<^verbatim>\<open>TypeError\<close>.
\<close>

definition process_slices :: "world \<Rightarrow> config \<Rightarrow> json list option \<Rightarrow> state \<Rightarrow> state \<times> (exn + unit)" where
  "process_slices w cfg report_json_files s =
     (case report_json_files of
        None \<Rightarrow> (s, Inl TypeError)
      | Some slices \<Rightarrow> slices_loop w cfg slices None s)"

text \<open>ArchiveFetcher: \<^verbatim>\<open>download_report\<close>.\<close>

definition download_report :: "world \<Rightarrow> dict \<Rightarrow> state \<Rightarrow> state \<times> (exn + tar_bytes)" where
  "download_report w consumed_message s =
     (let report_url = get consumed_message ''url'' in
      if \<not> truthy report_url
      then (s, Inl (FailDownloadException ''Kafka message has no report url''))
      else (let s1 = log_to INFO ''Downloading Report'' s in
            case requests_get w report_url of
              Inl e \<Rightarrow>
                if is_FailDownloadException e then (s1, Inl e)
                else (s1, Inl (FailDownloadException ''Unexpected error for URL''))
            | Inr content \<Rightarrow> (log_to INFO ''Successfully downloaded TAR'' s1, Inr content)))"

definition process_report :: "world \<Rightarrow> config \<Rightarrow> dict \<Rightarrow> state \<Rightarrow> state \<times> (exn + unit)" where
  "process_report w cfg consumed_message s =
     (let s0 = s\<lparr>request_obj :=
                   \<lparr>account = get consumed_message ''account'',
                    b64_identity = get consumed_message ''b64_identity'',
                    request_id = get consumed_message ''request_id'',
                    extra = []\<rparr>\<rparr>
      in case download_report w consumed_message s0 of
           (s1, Inl e) \<Rightarrow> (s1, Inl e)
         | (s1, Inr report_tar) \<Rightarrow>
             (case extract_report_slices w report_tar s1 of
                (s2, Inl e) \<Rightarrow> (s2, Inl e)
              | (s2, Inr report_json_files) \<Rightarrow> process_slices w cfg report_json_files s2))"

section \<open>Vocabulary of the extraction claims\<close>

text \<open>The two kinds of archive entry that the scan tells apart.\<close>

definition manifest_entry :: "member \<Rightarrow> bool" where
  "manifest_entry f = (sublist ''/metadata.json'' (name f) \<or> name f = ''metadata.json'')"

definition data_entry :: "member \<Rightarrow> bool" where
  "data_entry f = (\<not> manifest_entry f \<and> sublist ''.json'' (name f))"

text \<open>
  A well-formed data entry parses to a dictionary whose \<^verbatim>\<open>hosts\<close> value has a length.
\<close>

definition well_formed :: "member \<Rightarrow> bool" where
  "well_formed f =
     (case payload f of
        Parsed (JObj d) \<Rightarrow>
          (case len (get_default d ''hosts'' (JObj [])) of Inr n \<Rightarrow> True | Inl e \<Rightarrow> False)
      | _ \<Rightarrow> False)"

text \<open>
  What a manifest item \<open>(report_id, num_hosts)\<close> should accept of one data entry: the
  parsed document itself when the entry's name contains the identifier, the document
  declares that identifier and it has that many hosts; nothing otherwise.
\<close>

definition accepted_document :: "string \<Rightarrow> int \<Rightarrow> member \<Rightarrow> json list" where
  "accepted_document report_id num_hosts f =
     (if sublist report_id (name f)
      then (case payload f of
              Parsed (JObj d) \<Rightarrow>
                if get_default d ''report_slice_id'' (JStr []) = JStr report_id
                   \<and> len (get_default d ''hosts'' (JObj [])) = Inr num_hosts
                then [JObj d] else []
            | _ \<Rightarrow> [])
      else [])"

definition accepted_slices :: "(string \<times> int) list \<Rightarrow> member list \<Rightarrow> json list" where
  "accepted_slices valid_slice_ids json_files =
     concat (map (\<lambda>(report_id, num_hosts).
                    concat (map (accepted_document report_id num_hosts) json_files))
                 valid_slice_ids)"

section \<open>Vocabulary of the publication claims\<close>

text \<open>
  The first exception, if any, that \<^verbatim>\<open>json.dumps\<close>, \<^verbatim>\<open>produce\<close> and \<^verbatim>\<open>poll\<close>
  raise for a message, in the order of the calls.
\<close>

definition first_raised :: "world \<Rightarrow> envelope \<Rightarrow> exn option" where
  "first_raised w msg =
     (case dumps_raises w msg of
        Some e \<Rightarrow> Some e
      | None \<Rightarrow> (case produce_raises w msg of Some e \<Rightarrow> Some e | None \<Rightarrow> poll_raises w msg))"

text \<open>The outbound envelope of the spec for a record and an identity token.\<close>

definition add_host_envelope :: "dict \<Rightarrow> json \<Rightarrow> json \<Rightarrow> envelope" where
  "add_host_envelope host uid ident =
     \<lparr>operation = ''add_host'', data = host,
      platform_metadata = [(''request_id'', uid), (''b64_identity'', ident)]\<rparr>"

text \<open>
  A message is a well-formed envelope for an identity token when it is the envelope of
  its own \<open>data\<close>, of the \<^verbatim>\<open>system_unique_id\<close> of that record and of the token.
\<close>

definition well_formed_envelope :: "json \<Rightarrow> envelope \<Rightarrow> bool" where
  "well_formed_envelope ident msg =
     (case map_of (data msg) ''system_unique_id'' of
        None \<Rightarrow> False
      | Some uid \<Rightarrow> msg = add_host_envelope (data msg) uid ident)"

text \<open>
  From \<open>s\<close> to \<open>s'\<close> the identity token of the request context is kept and only
  well-formed envelopes for it are published.
\<close>

definition publishes_envelopes :: "state \<Rightarrow> state \<Rightarrow> bool" where
  "publishes_envelopes s s' =
     (b64_identity (request_obj s') = b64_identity (request_obj s)
      \<and> (\<exists>new. published s' = published s @ new
                 \<and> list_all (well_formed_envelope (b64_identity (request_obj s))) new))"

section \<open>Concrete inputs\<close>

text \<open>
  A world in which the download gives the archive \<open>tar\<close>, the validator returns the
  manifest \<open>items\<close> and records the report platform id, and Kafka never raises.
\<close>

definition calm_world :: "tar_bytes \<Rightarrow> (string \<times> int) list \<Rightarrow> world" where
  "calm_world tar items =
     \<lparr>requests_get = (\<lambda>url. Inr tar),
      validate_metadata_file =
        (\<lambda>files metadata_file rq.
           (AList.update ''report_platform_id'' (JStr ''rp-1'') (extra rq), Inr items)),
      uuid4 = (\<lambda>n. replicate (Suc n) (CHR ''u'')),
      Producer_raises = (\<lambda>msg. None),
      dumps_raises = (\<lambda>msg. None),
      produce_raises = (\<lambda>msg. None),
      poll_raises = (\<lambda>msg. None),
      flush_raises = (\<lambda>msg. None)\<rparr>"

definition fresh_request :: request where
  "fresh_request =
     \<lparr>account = JStr ''acct-1'', b64_identity = JStr ''aWRlbnRpdHk='',
      request_id = JStr ''req-1'', extra = []\<rparr>"

definition fresh_state :: state where
  "fresh_state = \<lparr>logged = [], published = [], uuids_drawn = 0, request_obj = fresh_request\<rparr>"

definition metadata_member :: member where
  "metadata_member = \<lparr>name = ''metadata.json'', payload = Parsed (JObj [])\<rparr>"

text \<open>The slice documents of the end-to-end scenarios of the spec.\<close>

definition slice_s1 :: json where
  "slice_s1 =
     JObj [(''report_slice_id'', JStr ''s1''),
           (''hosts'', JArr [JObj [(''bios_uuid'', JStr ''X'')], JObj []])]"

definition slice_s2 :: json where
  "slice_s2 =
     JObj [(''report_slice_id'', JStr ''s2''),
           (''hosts'', JArr [JObj [(''bios_uuid'', JStr ''Y'')]])]"

definition validated_state :: state where
  "validated_state = set_extra [(''report_platform_id'', JStr ''rp-1'')] fresh_state"

text \<open>A world whose \<^verbatim>\<open>produce\<close> raises \<^verbatim>\<open>KafkaException\<close> for every message.\<close>

definition broker_down_world :: world where
  "broker_down_world = (calm_world (Inr []) [])\<lparr>produce_raises := (\<lambda>msg. Some KafkaException)\<rparr>"

definition host_x :: dict where
  "host_x = [(''bios_uuid'', JStr ''X''), (''system_unique_id'', JStr ''sys-1''),
             (''account'', JStr ''acct-1'')]"

text \<open>Configurations with no registered modifier, and a consumed message.\<close>

definition config_enabled :: config where
  "config_enabled =
     \<lparr>HOSTS_TRANSFORMATION_ENABLED = True, HOSTS_UPLOAD_FUTURES_COUNT = 100, get_modifiers = []\<rparr>"

definition config_disabled :: config where
  "config_disabled = config_enabled\<lparr>HOSTS_TRANSFORMATION_ENABLED := False\<rparr>"

definition consumed :: dict where
  "consumed =
     [(''account'', JStr ''acct-1''), (''b64_identity'', JStr ''aWRlbnRpdHk=''),
      (''request_id'', JStr ''req-1''), (''url'', JStr ''http://storage/report.tar.gz'')]"

text \<open>A slice whose one host is a candidate, and a slice whose one host has no fact.\<close>

definition slice_one_candidate :: json where
  "slice_one_candidate = JObj [(''report_slice_id'', JStr ''s1''), (''hosts'', JArr [JObj host_x])]"

definition slice_no_candidate :: json where
  "slice_no_candidate = JObj [(''report_slice_id'', JStr ''s2''), (''hosts'', JArr [JObj []])]"

text \<open>\<open>host_x\<close> as it is published: with its correlation id and its slice identifier.\<close>

definition host_x_published :: dict where
  "host_x_published =
     host_x @ [(''yupana_host_id'', JStr ''u''), (''report_slice_id'', JStr ''s1'')]"

section \<open>Properties of the host filter\<close>

lemma truthy_iff_not_empty: "truthy v = (\<not> empty_value v)"
  by (cases v) (auto simp: empty_value_def)

lemma truthy_get_iff: "truthy (get host k) = fact_set host k"
  by (simp add: get_def get_default_def fact_set_def truthy_iff_not_empty empty_value_def
      split: option.split)

lemma facts_loop_iff: "facts_loop facts host = (\<exists>k \<in> set facts. fact_set host k)"
  by (induction facts) (auto simp: truthy_get_iff)

lemma fact_set_update_other:
  "k' \<noteq> k \<Longrightarrow> fact_set (AList.update k' v host) k = fact_set host k"
  by (simp add: fact_set_def update_conv')

lemma fact_set_update_same: "fact_set (AList.update k v host) k = (\<not> empty_value v)"
  by (simp add: fact_set_def update_conv')

text \<open>
  C2. For every record, \<^verbatim>\<open>has_canonical_facts\<close> holds exactly when one of the seven
  identity-fact keys is present with a non-empty value; an absent key and a key holding
  the empty string both count as not set. Hence setting any single one of the seven keys
  to a non-empty value makes the record a candidate, whichever key it is, and adding or
  changing a field that is not one of the seven keys never changes the classification.
\<close>

theorem has_canonical_facts_iff:
  "(has_canonical_facts host \<longleftrightarrow>
      (\<exists>k \<in> {''insights_client_id'', ''bios_uuid'', ''ip_addresses'', ''mac_addresses'',
              ''vm_uuid'', ''etc_machine_id'', ''subscription_manager_id''}.
         \<exists>v. map_of host k = Some v \<and> \<not> empty_value v))
   \<and> (map_of host k = None \<or> map_of host k = Some (JStr []) \<longrightarrow> \<not> fact_set host k)
   \<and> (k \<in> set CANONICAL_FACTS \<and> \<not> empty_value v \<longrightarrow>
        has_canonical_facts (AList.update k v host))
   \<and> (k' \<notin> set CANONICAL_FACTS \<longrightarrow>
        has_canonical_facts (AList.update k' v' host) = has_canonical_facts host)"
proof (intro conjI impI)
  have "has_canonical_facts host = (\<exists>k \<in> set CANONICAL_FACTS. fact_set host k)"
    by (simp add: has_canonical_facts_def facts_loop_iff)
  also have "\<dots> = (\<exists>k \<in> set CANONICAL_FACTS. \<exists>v. map_of host k = Some v \<and> \<not> empty_value v)"
    by (auto simp: fact_set_def split: option.splits)
  finally show "has_canonical_facts host \<longleftrightarrow>
      (\<exists>k \<in> {''insights_client_id'', ''bios_uuid'', ''ip_addresses'', ''mac_addresses'',
              ''vm_uuid'', ''etc_machine_id'', ''subscription_manager_id''}.
         \<exists>v. map_of host k = Some v \<and> \<not> empty_value v)"
    by (simp only: CANONICAL_FACTS_def list.set)
next
  assume "map_of host k = None \<or> map_of host k = Some (JStr [])"
  then show "\<not> fact_set host k"
    by (auto simp: fact_set_def empty_value_def)
next
  assume "k \<in> set CANONICAL_FACTS \<and> \<not> empty_value v"
  then have "\<exists>j \<in> set CANONICAL_FACTS. fact_set (AList.update k v host) j"
    using fact_set_update_same by blast
  then show "has_canonical_facts (AList.update k v host)"
    by (simp add: has_canonical_facts_def facts_loop_iff)
next
  assume "k' \<notin> set CANONICAL_FACTS"
  then have "\<forall>k \<in> set CANONICAL_FACTS. fact_set (AList.update k' v' host) k = fact_set host k"
    using fact_set_update_other by metis
  then show "has_canonical_facts (AList.update k' v' host) = has_canonical_facts host"
    by (simp add: has_canonical_facts_def facts_loop_iff)
qed

theorem has_canonical_facts_iff_witness:
  "(map_of [(''fqdn'', JStr ''a.example'')] ''vm_uuid'' = None
      \<or> map_of [(''fqdn'', JStr ''a.example'')] ''vm_uuid'' = Some (JStr []))
   \<and> \<not> fact_set [(''fqdn'', JStr ''a.example'')] ''vm_uuid''
   \<and> \<not> has_canonical_facts [(''fqdn'', JStr ''a.example'')]
   \<and> ''vm_uuid'' \<in> set CANONICAL_FACTS \<and> \<not> empty_value (JStr ''X'')
   \<and> has_canonical_facts (AList.update ''vm_uuid'' (JStr ''X'') [(''fqdn'', JStr ''a.example'')])
   \<and> ''os'' \<notin> set CANONICAL_FACTS
   \<and> has_canonical_facts (AList.update ''os'' (JStr ''linux'') [(''fqdn'', JStr ''a.example'')])
        = has_canonical_facts [(''fqdn'', JStr ''a.example'')]"
  using has_canonical_facts_iff
    [of "[(''fqdn'', JStr ''a.example'')]" "''vm_uuid''" "JStr ''X''" "''os''" "JStr ''linux''"]
  by (simp add: CANONICAL_FACTS_def empty_value_def)

section \<open>Properties of the scan\<close>

lemma scan_files_Cons:
  "scan_files (file # files) json_files metadata_file =
     (if manifest_entry file then scan_files files json_files (Some file)
      else if data_entry file then scan_files files (json_files @ [file]) metadata_file
      else scan_files files json_files metadata_file)"
  by (simp add: data_entry_def manifest_entry_def)

lemma scan_files_fst:
  "fst (scan_files files json_files metadata_file) = json_files @ filter data_entry files"
proof (induction files arbitrary: json_files metadata_file)
  case Nil
  show ?case by simp
next
  case (Cons f fs)
  show ?case
    by (simp add: scan_files_Cons Cons.IH data_entry_def del: scan_files.simps)
qed

lemma scan_files_snd:
  "snd (scan_files files json_files metadata_file) =
     (if \<exists>f \<in> set files. manifest_entry f then Some (last (filter manifest_entry files))
      else metadata_file)"
proof (induction files arbitrary: json_files metadata_file)
  case Nil
  show ?case by simp
next
  case (Cons f fs)
  show ?case
    by (auto simp: scan_files_Cons Cons.IH filter_empty_conv simp del: scan_files.simps)
qed

lemma scan_files_eq:
  "scan_files files [] None =
     (filter data_entry files,
      if \<exists>f \<in> set files. manifest_entry f then Some (last (filter manifest_entry files))
      else None)"
  using scan_files_fst [of files "[]" None] scan_files_snd [of files "[]" None]
  by (simp add: prod_eq_iff)

text \<open>
  C6. For every readable archive that has no manifest entry, or no data entry, the
  extraction raises \<^verbatim>\<open>FailExtractException\<close>; the state is the one before the call, so
  nothing was read or logged, and neither the validator nor any member's content
  has any influence.
\<close>

theorem extract_fails_without_manifest_or_data:
  assumes "\<not> (\<exists>f \<in> set files. manifest_entry f) \<or> \<not> (\<exists>f \<in> set files. data_entry f)"
  shows "extract_report_slices w (Inr files) s =
           (s, Inl (FailExtractException
                      ''Tar does not contain valid JSON metadata & report files''))"
proof -
  have "extract_try w (Inr files) s =
          (s, Inl (FailExtractException
                     ''Tar does not contain valid JSON metadata & report files''))"
    using assms
    by (auto simp: extract_try_def scan_files_eq filter_empty_conv)
  then show ?thesis
    by (simp add: extract_report_slices_def)
qed

theorem extract_fails_without_manifest_or_data_witness:
  "\<not> (\<exists>f \<in> set [\<lparr>name = ''reports/slice_s1.json'', payload = Parsed slice_s1\<rparr>]. manifest_entry f)
   \<and> extract_report_slices (calm_world (Inr []) [(''s1'', 2)])
        (Inr [\<lparr>name = ''reports/slice_s1.json'', payload = Parsed slice_s1\<rparr>]) fresh_state =
        (fresh_state, Inl (FailExtractException
                             ''Tar does not contain valid JSON metadata & report files''))"
proof -
  have h: "\<not> (\<exists>f \<in> set [\<lparr>name = ''reports/slice_s1.json'', payload = Parsed slice_s1\<rparr>]. manifest_entry f)"
    by (simp add: manifest_entry_def sublist_code)
  from h extract_fails_without_manifest_or_data
         [of "[\<lparr>name = ''reports/slice_s1.json'', payload = Parsed slice_s1\<rparr>]"
             "calm_world (Inr []) [(''s1'', 2)]" fresh_state]
  show ?thesis by blast
qed

section \<open>Properties of the extraction loops\<close>

lemma read_undecodable:
  "payload f = Undecodable \<Longrightarrow> snd (read_report_slice report_id num_hosts f report_files s) = Inr report_files"
  by (simp add: read_report_slice_def)

lemma read_invalid_json:
  "payload f = Invalid_json \<Longrightarrow> snd (read_report_slice report_id num_hosts f report_files s) = Inl JSONDecodeError"
  by (simp add: read_report_slice_def)

lemma read_well_formed:
  assumes "well_formed f" and "sublist report_id (name f)"
  shows "snd (read_report_slice report_id num_hosts f report_files s) =
           Inr (report_files @ accepted_document report_id num_hosts f)"
proof -
  from assms(1) obtain d n where d: "payload f = Parsed (JObj d)"
    and n: "len (get_default d ''hosts'' (JObj [])) = Inr n"
    by (auto simp: well_formed_def split: contents.splits json.splits sum.splits)
  show ?thesis
    using assms(2) by (simp add: read_report_slice_def accepted_document_def d n)
qed

lemma accepted_document_not_parsed:
  "payload f = Undecodable \<or> payload f = Invalid_json \<Longrightarrow> accepted_document report_id num_hosts f = []"
  by (auto simp: accepted_document_def)

lemma accepted_document_no_match:
  "\<not> sublist report_id (name f) \<Longrightarrow> accepted_document report_id num_hosts f = []"
  by (simp add: accepted_document_def)

lemma well_formed_not_invalid: "well_formed f \<Longrightarrow> payload f \<noteq> Invalid_json"
  by (auto simp: well_formed_def)

lemma files_loop_result:
  assumes "\<forall>f \<in> set fs. sublist report_id (name f) \<longrightarrow>
             payload f = Undecodable \<or> payload f = Invalid_json \<or> well_formed f"
  shows "snd (files_loop report_id num_hosts fs report_files s) =
           (if \<exists>f \<in> set fs. sublist report_id (name f) \<and> payload f = Invalid_json
            then Inl JSONDecodeError
            else Inr (report_files @ concat (map (accepted_document report_id num_hosts) fs)))"
  using assms
proof (induction fs arbitrary: report_files s)
  case Nil
  show ?case by simp
next
  case (Cons f fs)
  have IH: "\<And>rf t. snd (files_loop report_id num_hosts fs rf t) =
           (if \<exists>f \<in> set fs. sublist report_id (name f) \<and> payload f = Invalid_json
            then Inl JSONDecodeError
            else Inr (rf @ concat (map (accepted_document report_id num_hosts) fs)))"
    using Cons by simp
  show ?case
  proof (cases "sublist report_id (name f)")
    case False
    then show ?thesis
      by (simp add: IH accepted_document_no_match)
  next
    case True
    obtain s' r where step: "read_report_slice report_id num_hosts f report_files s = (s', r)"
      by (cases "read_report_slice report_id num_hosts f report_files s")
    then have r: "r = snd (read_report_slice report_id num_hosts f report_files s)"
      by simp
    from Cons.prems True
    consider "payload f = Undecodable" | "payload f = Invalid_json" | "well_formed f"
      by auto
    then show ?thesis
    proof cases
      case 1
      then have "r = Inr report_files"
        by (simp add: r read_undecodable)
      with 1 True step show ?thesis
        by (simp add: IH accepted_document_not_parsed)
    next
      case 2
      then have "r = Inl JSONDecodeError"
        by (simp add: r read_invalid_json)
      with 2 True step show ?thesis
        by auto
    next
      case 3
      then have "r = Inr (report_files @ accepted_document report_id num_hosts f)"
        using True by (simp add: r read_well_formed)
      with 3 True step show ?thesis
        by (simp add: IH well_formed_not_invalid)
    qed
  qed
qed

lemma slice_ids_loop_result:
  assumes "\<forall>(report_id, num_hosts) \<in> set items. \<forall>f \<in> set json_files.
             sublist report_id (name f) \<longrightarrow>
             payload f = Undecodable \<or> payload f = Invalid_json \<or> well_formed f"
  shows "snd (slice_ids_loop items json_files report_files s) =
           (if \<exists>(report_id, num_hosts) \<in> set items. \<exists>f \<in> set json_files.
                 sublist report_id (name f) \<and> payload f = Invalid_json
            then Inl JSONDecodeError
            else Inr (report_files @ accepted_slices items json_files))"
  using assms
proof (induction items arbitrary: report_files s)
  case Nil
  show ?case by (simp add: accepted_slices_def)
next
  case (Cons item items)
  obtain report_id num_hosts where item: "item = (report_id, num_hosts)"
    by (cases item)
  have IH: "\<And>rf t. snd (slice_ids_loop items json_files rf t) =
           (if \<exists>(report_id, num_hosts) \<in> set items. \<exists>f \<in> set json_files.
                 sublist report_id (name f) \<and> payload f = Invalid_json
            then Inl JSONDecodeError
            else Inr (rf @ accepted_slices items json_files))"
    using Cons by simp
  have inner: "snd (files_loop report_id num_hosts json_files report_files s) =
           (if \<exists>f \<in> set json_files. sublist report_id (name f) \<and> payload f = Invalid_json
            then Inl JSONDecodeError
            else Inr (report_files
                      @ concat (map (accepted_document report_id num_hosts) json_files)))"
    using Cons.prems by (intro files_loop_result) (simp add: item)
  obtain s' r where step: "files_loop report_id num_hosts json_files report_files s = (s', r)"
    by (cases "files_loop report_id num_hosts json_files report_files s")
  then have r: "r = snd (files_loop report_id num_hosts json_files report_files s)"
    by simp
  show ?case
  proof (cases "\<exists>f \<in> set json_files. sublist report_id (name f) \<and> payload f = Invalid_json")
    case True
    then have "r = Inl JSONDecodeError"
      using inner r by simp
    with True step show ?thesis
      by (auto simp: item)
  next
    case False
    then have "r = Inr (report_files
                      @ concat (map (accepted_document report_id num_hosts) json_files))"
      using inner r by simp
    with False step show ?thesis
      by (simp add: item IH accepted_slices_def)
  qed
qed

lemma extract_result:
  assumes "\<exists>f \<in> set files. manifest_entry f" and "\<exists>f \<in> set files. data_entry f"
    and "validate_metadata_file w files (last (filter manifest_entry files)) (request_obj s)
           = (ex, Inr items)"
    and "\<forall>(report_id, num_hosts) \<in> set items. \<forall>f \<in> set (filter data_entry files).
           sublist report_id (name f) \<longrightarrow>
           payload f = Undecodable \<or> payload f = Invalid_json \<or> well_formed f"
  shows "snd (extract_report_slices w (Inr files) s) =
           (if \<exists>(report_id, num_hosts) \<in> set items. \<exists>f \<in> set (filter data_entry files).
                 sublist report_id (name f) \<and> payload f = Invalid_json
            then Inl (FailExtractException ''Report is not valid JSON'')
            else Inr (Some (accepted_slices items (filter data_entry files))))"
proof -
  let ?js = "filter data_entry files"
  let ?s1 = "set_extra ex s"
  obtain s' r where loop: "slice_ids_loop items ?js [] ?s1 = (s', r)"
    by (cases "slice_ids_loop items ?js [] ?s1")
  have r: "r = (if \<exists>(report_id, num_hosts) \<in> set items. \<exists>f \<in> set ?js.
                    sublist report_id (name f) \<and> payload f = Invalid_json
                then Inl JSONDecodeError
                else Inr ([] @ accepted_slices items ?js))"
    using slice_ids_loop_result [OF assms(4), of "[]" ?s1] loop by simp
  have js: "?js \<noteq> []"
    using assms(2) by (simp add: filter_empty_conv)
  have body: "extract_try w (Inr files) s = validated_slices w files ?js (last (filter manifest_entry files)) s"
    using assms(1) js by (simp add: extract_try_def scan_files_eq)
  have "snd (validated_slices w files ?js (last (filter manifest_entry files)) s) =
          (if \<exists>(report_id, num_hosts) \<in> set items. \<exists>f \<in> set ?js.
                sublist report_id (name f) \<and> payload f = Invalid_json
           then Inl (FailExtractException ''Report is not valid JSON'')
           else Inr (accepted_slices items ?js))"
    by (simp add: validated_slices_def assms(3) loop r)
  then show ?thesis
    by (cases "validated_slices w files ?js (last (filter manifest_entry files)) s")
       (auto simp: extract_report_slices_def body split: if_splits)
qed

lemma files_loop_no_match:
  "\<forall>f \<in> set fs. \<not> sublist report_id (name f) \<Longrightarrow>
   files_loop report_id num_hosts fs report_files s = (s, Inr report_files)"
  by (induction fs) auto

lemma slice_ids_loop_no_match:
  "\<forall>(report_id, num_hosts) \<in> set items. \<forall>f \<in> set json_files. \<not> sublist report_id (name f) \<Longrightarrow>
   slice_ids_loop items json_files report_files s = (s, Inr report_files)"
  by (induction items) (auto simp: files_loop_no_match)

section \<open>The claims about extraction\<close>

text \<open>
  C5, as the code has it. For every archive with a manifest entry and a data entry whose
  manifest validates, if no slice identifier of the manifest occurs in the name of any
  data entry, the extraction raises nothing and returns the empty list of accepted
  slices; nothing is read or logged.
\<close>

theorem extract_without_match_returns_empty:
  assumes "\<exists>f \<in> set files. manifest_entry f" and "\<exists>f \<in> set files. data_entry f"
    and "validate_metadata_file w files (last (filter manifest_entry files)) (request_obj s)
           = (ex, Inr items)"
    and "\<forall>(report_id, num_hosts) \<in> set items. \<forall>f \<in> set files.
           data_entry f \<longrightarrow> \<not> sublist report_id (name f)"
  shows "extract_report_slices w (Inr files) s = (set_extra ex s, Inr (Some []))"
proof -
  let ?js = "filter data_entry files"
  have js: "?js \<noteq> []"
    using assms(2) by (simp add: filter_empty_conv)
  have "\<forall>(report_id, num_hosts) \<in> set items. \<forall>f \<in> set ?js. \<not> sublist report_id (name f)"
    using assms(4) by auto
  then have "slice_ids_loop items ?js [] (set_extra ex s) = (set_extra ex s, Inr [])"
    by (rule slice_ids_loop_no_match)
  then have "extract_try w (Inr files) s = (set_extra ex s, Inr [])"
    using assms(1) js by (simp add: extract_try_def scan_files_eq validated_slices_def assms(3))
  then show ?thesis
    by (simp add: extract_report_slices_def)
qed

text \<open>
  The claim C5 as stated fails: an archive with \<^verbatim>\<open>metadata.json\<close> and \<^verbatim>\<open>report.json\<close>
  whose manifest is \<^verbatim>\<open>{"s1": 2}\<close> has a manifest entry and a data entry, no data entry's
  name contains \<^verbatim>\<open>s1\<close>, and the extraction returns the empty list.
\<close>

theorem extract_without_match_counterexample:
  "manifest_entry metadata_member
   \<and> data_entry \<lparr>name = ''report.json'', payload = Parsed slice_s1\<rparr>
   \<and> \<not> sublist ''s1'' (name \<lparr>name = ''report.json'', payload = Parsed slice_s1\<rparr>)
   \<and> snd (extract_report_slices (calm_world (Inr []) [(''s1'', 2)])
             (Inr [metadata_member, \<lparr>name = ''report.json'', payload = Parsed slice_s1\<rparr>])
             fresh_state) = Inr (Some [])"
  by (simp add: manifest_entry_def data_entry_def metadata_member_def sublist_code
        extract_report_slices_def extract_try_def validated_slices_def calm_world_def)

theorem extract_without_match_returns_empty_witness:
  "extract_report_slices (calm_world (Inr []) [(''s1'', 2)])
     (Inr [metadata_member, \<lparr>name = ''report.json'', payload = Parsed slice_s1\<rparr>]) fresh_state
   = (set_extra [(''report_platform_id'', JStr ''rp-1'')] fresh_state, Inr (Some []))"
proof -
  let ?files = "[metadata_member, \<lparr>name = ''report.json'', payload = Parsed slice_s1\<rparr>]"
  have m: "manifest_entry metadata_member"
    by (simp add: manifest_entry_def metadata_member_def)
  have d: "data_entry \<lparr>name = ''report.json'', payload = Parsed slice_s1\<rparr>"
    by (simp add: data_entry_def manifest_entry_def sublist_code)
  have nd: "\<not> data_entry metadata_member"
    using m by (simp add: data_entry_def)
  have nm: "\<not> manifest_entry \<lparr>name = ''report.json'', payload = Parsed slice_s1\<rparr>"
    using d by (simp add: data_entry_def)
  have h1: "\<exists>f \<in> set ?files. manifest_entry f"
    using m by simp
  have h2: "\<exists>f \<in> set ?files. data_entry f"
    using d by simp
  have h3: "validate_metadata_file (calm_world (Inr []) [(''s1'', 2)]) ?files
              (last (filter manifest_entry ?files)) (request_obj fresh_state)
            = ([(''report_platform_id'', JStr ''rp-1'')], Inr [(''s1'', 2)])"
    by (simp add: calm_world_def fresh_state_def fresh_request_def)
  have h4: "\<forall>(report_id, num_hosts) \<in> set [(''s1'', 2::int)]. \<forall>f \<in> set ?files.
              data_entry f \<longrightarrow> \<not> sublist report_id (name f)"
    using nd by (simp add: sublist_code)
  show ?thesis
    using extract_without_match_returns_empty [OF h1 h2 h3 h4] .
qed

text \<open>
  C7. Take an archive with a manifest entry and data entries whose manifest validates
  to \<open>items\<close>, and let every data entry that a manifest identifier matches be
  well-formed. Then the extraction raises nothing, and the accepted slices are exactly,
  in the order of the loops, the parsed documents of the pairs of a manifest item
  \<open>(report_id, num_hosts)\<close> and a matching data entry whose document declares
  \<open>report_id\<close> and has \<open>num_hosts\<close> hosts, each document as it was parsed. A pair whose
  document declares another identifier or has another number of hosts contributes
  nothing, and the pairs after it are still examined.
\<close>

theorem extract_accepts_exactly_matching_slices:
  assumes "\<exists>f \<in> set files. manifest_entry f" and "\<exists>f \<in> set files. data_entry f"
    and "validate_metadata_file w files (last (filter manifest_entry files)) (request_obj s)
           = (ex, Inr items)"
    and "\<forall>(report_id, num_hosts) \<in> set items. \<forall>f \<in> set (filter data_entry files).
           sublist report_id (name f) \<longrightarrow> well_formed f"
  shows "snd (extract_report_slices w (Inr files) s) =
           Inr (Some (concat (map (\<lambda>(report_id, num_hosts).
                                concat (map (accepted_document report_id num_hosts)
                                            (filter data_entry files)))
                              items)))"
proof -
  have tame: "\<forall>(report_id, num_hosts) \<in> set items. \<forall>f \<in> set (filter data_entry files).
           sublist report_id (name f) \<longrightarrow>
           payload f = Undecodable \<or> payload f = Invalid_json \<or> well_formed f"
    using assms(4) by fast
  have "\<not> (\<exists>(report_id, num_hosts) \<in> set items. \<exists>f \<in> set (filter data_entry files).
                 sublist report_id (name f) \<and> payload f = Invalid_json)"
    using assms(4) well_formed_not_invalid by fast
  then show ?thesis
    using extract_result [OF assms(1) assms(2) assms(3) tame]
    by (simp add: accepted_slices_def)
qed

theorem extract_accepts_exactly_matching_slices_witness:
  "snd (extract_report_slices (calm_world (Inr []) [(''s1'', 2), (''s2'', 3)])
          (Inr [metadata_member,
                \<lparr>name = ''slice_s1.json'', payload = Parsed slice_s1\<rparr>,
                \<lparr>name = ''slice_s2.json'', payload = Parsed slice_s2\<rparr>])
          fresh_state) = Inr (Some [slice_s1])"
proof -
  let ?files = "[metadata_member,
                \<lparr>name = ''slice_s1.json'', payload = Parsed slice_s1\<rparr>,
                \<lparr>name = ''slice_s2.json'', payload = Parsed slice_s2\<rparr>]"
  let ?w = "calm_world (Inr []) [(''s1'', 2), (''s2'', 3)]"
  have js: "filter data_entry ?files =
              [\<lparr>name = ''slice_s1.json'', payload = Parsed slice_s1\<rparr>,
               \<lparr>name = ''slice_s2.json'', payload = Parsed slice_s2\<rparr>]"
    by (simp add: data_entry_def manifest_entry_def metadata_member_def sublist_code)
  have h1: "\<exists>f \<in> set ?files. manifest_entry f"
    by (simp add: manifest_entry_def metadata_member_def)
  have h2: "\<exists>f \<in> set ?files. data_entry f"
    by (simp add: data_entry_def manifest_entry_def sublist_code)
  have h3: "validate_metadata_file ?w ?files (last (filter manifest_entry ?files))
              (request_obj fresh_state)
            = ([(''report_platform_id'', JStr ''rp-1'')], Inr [(''s1'', 2), (''s2'', 3)])"
    by (simp add: calm_world_def fresh_state_def fresh_request_def)
  have h4: "\<forall>(report_id, num_hosts) \<in> set [(''s1'', 2::int), (''s2'', 3)].
              \<forall>f \<in> set (filter data_entry ?files). sublist report_id (name f) \<longrightarrow> well_formed f"
    unfolding js
    by (simp add: well_formed_def slice_s1_def slice_s2_def get_default_def)
  show ?thesis
    using extract_accepts_exactly_matching_slices [OF h1 h2 h3 h4] unfolding js
    by (simp add: accepted_document_def sublist_code get_default_def slice_s1_def slice_s2_def)
qed

text \<open>
  C8. Take an archive with a manifest entry and data entries whose manifest validates,
  and let every data entry that a manifest identifier matches be undecodable, invalid
  JSON or well-formed. If some matched entry is invalid JSON, the whole extraction
  raises \<^verbatim>\<open>FailExtractException\<close>. Otherwise it raises nothing and returns the accepted
  slices of the other entries: an undecodable entry is passed over (its accepted
  documents are none) and its siblings are still read.
\<close>

theorem extract_skips_undecodable_and_fails_on_invalid_json:
  assumes "\<exists>f \<in> set files. manifest_entry f" and "\<exists>f \<in> set files. data_entry f"
    and "validate_metadata_file w files (last (filter manifest_entry files)) (request_obj s)
           = (ex, Inr items)"
    and "\<forall>(report_id, num_hosts) \<in> set items. \<forall>f \<in> set (filter data_entry files).
           sublist report_id (name f) \<longrightarrow>
           payload f = Undecodable \<or> payload f = Invalid_json \<or> well_formed f"
  shows "snd (extract_report_slices w (Inr files) s) =
           (if \<exists>(report_id, num_hosts) \<in> set items. \<exists>f \<in> set (filter data_entry files).
                 sublist report_id (name f) \<and> payload f = Invalid_json
            then Inl (FailExtractException ''Report is not valid JSON'')
            else Inr (Some (accepted_slices items
                              (filter (\<lambda>f. payload f \<noteq> Undecodable)
                                      (filter data_entry files)))))"
proof -
  have drop: "concat (map (accepted_document report_id num_hosts) fs) =
              concat (map (accepted_document report_id num_hosts)
                          (filter (\<lambda>f. payload f \<noteq> Undecodable) fs))"
    for report_id num_hosts fs
    by (induction fs) (auto simp: accepted_document_not_parsed)
  have "accepted_slices items (filter data_entry files) =
        accepted_slices items (filter (\<lambda>f. payload f \<noteq> Undecodable) (filter data_entry files))"
    unfolding accepted_slices_def using drop by metis
  then show ?thesis
    using extract_result [OF assms] by simp
qed

theorem extract_skips_undecodable_and_fails_on_invalid_json_witness:
  "snd (extract_report_slices (calm_world (Inr []) [(''s1'', 2), (''s2'', 1)])
          (Inr [metadata_member,
                \<lparr>name = ''slice_s1.json'', payload = Undecodable\<rparr>,
                \<lparr>name = ''slice_s2.json'', payload = Parsed slice_s2\<rparr>])
          fresh_state) = Inr (Some [slice_s2])
   \<and> snd (extract_report_slices (calm_world (Inr []) [(''s1'', 2), (''s2'', 1)])
          (Inr [metadata_member,
                \<lparr>name = ''slice_s1.json'', payload = Invalid_json\<rparr>,
                \<lparr>name = ''slice_s2.json'', payload = Parsed slice_s2\<rparr>])
          fresh_state) = Inl (FailExtractException ''Report is not valid JSON'')"
proof -
  let ?w = "calm_world (Inr []) [(''s1'', 2), (''s2'', 1)]"
  have wf: "well_formed \<lparr>name = ''slice_s2.json'', payload = Parsed slice_s2\<rparr>"
    by (simp add: well_formed_def slice_s2_def get_default_def)
  have js: "filter data_entry [metadata_member, \<lparr>name = ''slice_s1.json'', payload = c\<rparr>,
                               \<lparr>name = ''slice_s2.json'', payload = Parsed slice_s2\<rparr>] =
              [\<lparr>name = ''slice_s1.json'', payload = c\<rparr>,
               \<lparr>name = ''slice_s2.json'', payload = Parsed slice_s2\<rparr>]" for c
    by (simp add: data_entry_def manifest_entry_def metadata_member_def sublist_code)
  have h1: "\<exists>f \<in> set [metadata_member, \<lparr>name = ''slice_s1.json'', payload = c\<rparr>,
                        \<lparr>name = ''slice_s2.json'', payload = Parsed slice_s2\<rparr>]. manifest_entry f" for c
    by (simp add: manifest_entry_def metadata_member_def)
  have h2: "\<exists>f \<in> set [metadata_member, \<lparr>name = ''slice_s1.json'', payload = c\<rparr>,
                        \<lparr>name = ''slice_s2.json'', payload = Parsed slice_s2\<rparr>]. data_entry f" for c
    by (simp add: data_entry_def manifest_entry_def sublist_code)
  have h3: "validate_metadata_file ?w files (last (filter manifest_entry files))
              (request_obj fresh_state)
            = ([(''report_platform_id'', JStr ''rp-1'')], Inr [(''s1'', 2), (''s2'', 1)])" for files
    by (simp add: calm_world_def fresh_state_def fresh_request_def)
  have h4: "c = Undecodable \<or> c = Invalid_json \<Longrightarrow>
            \<forall>(report_id, num_hosts) \<in> set [(''s1'', 2::int), (''s2'', 1)].
              \<forall>f \<in> set (filter data_entry [metadata_member, \<lparr>name = ''slice_s1.json'', payload = c\<rparr>,
                               \<lparr>name = ''slice_s2.json'', payload = Parsed slice_s2\<rparr>]).
                sublist report_id (name f) \<longrightarrow>
                payload f = Undecodable \<or> payload f = Invalid_json \<or> well_formed f" for c
    unfolding js using wf by auto
  have a: "snd (extract_report_slices ?w
          (Inr [metadata_member,
                \<lparr>name = ''slice_s1.json'', payload = Undecodable\<rparr>,
                \<lparr>name = ''slice_s2.json'', payload = Parsed slice_s2\<rparr>])
          fresh_state) = Inr (Some [slice_s2])"
    using extract_skips_undecodable_and_fails_on_invalid_json [OF h1 h2 h3 h4, of Undecodable]
    unfolding js
    by (simp add: accepted_slices_def accepted_document_def sublist_code get_default_def slice_s2_def)
  have b: "snd (extract_report_slices ?w
          (Inr [metadata_member,
                \<lparr>name = ''slice_s1.json'', payload = Invalid_json\<rparr>,
                \<lparr>name = ''slice_s2.json'', payload = Parsed slice_s2\<rparr>])
          fresh_state) = Inl (FailExtractException ''Report is not valid JSON'')"
    using extract_skips_undecodable_and_fails_on_invalid_json [OF h1 h2 h3 h4, of Invalid_json]
    unfolding js
    by (simp add: sublist_code)
  from a b show ?thesis by simp
qed

section \<open>The claims about publication\<close>

lemma send_message_extra [simp]:
  "request_obj (fst (send_message w msg req_id s)) = request_obj s"
  by (simp add: send_message_def send_try_def log_to_def Let_def split: option.splits)

lemma send_message_raises:
  "snd (send_message w msg req_id s) =
     (if Producer_raises w msg \<noteq> None then Some (UnboundLocalError ''producer'')
      else (case flush_raises w msg of
              Some e \<Rightarrow> Some e
            | None \<Rightarrow>
                (case first_raised w msg of
                   None \<Rightarrow> None
                 | Some e \<Rightarrow> if e = KafkaException then None else Some e)))"
  by (auto simp: send_message_def send_try_def first_raised_def Let_def split: option.splits)

text \<open>
  C4, as the code has it. Let the record have an \<^verbatim>\<open>account\<close> field and the request
  context a \<^verbatim>\<open>report_platform_id\<close>. Then every exception raised while the message is
  built, and every exception that \<^verbatim>\<open>send_message\<close> lets out, is raised to the caller
  as a \<^verbatim>\<open>KafkaMsgHandlerError\<close> with the account and the report platform id.
  \<^verbatim>\<open>send_message\<close> lets out the exception of \<^verbatim>\<open>flush\<close> and, of \<^verbatim>\<open>json.dumps\<close>,
  \<^verbatim>\<open>produce\<close> and \<^verbatim>\<open>poll\<close>, every exception but \<^verbatim>\<open>KafkaException\<close>: that one it
  logs and drops, and the call returns normally.
\<close>

theorem upload_raises_typed_error:
  assumes "map_of host ''account'' = Some acct"
    and "map_of (extra (request_obj s)) ''report_platform_id'' = Some rp"
  shows "snd (upload_to_host_inventory_via_kafka w host s) =
     (case map_of host ''system_unique_id'' of
        None \<Rightarrow> Some (KafkaMsgHandlerError (KeyError ''system_unique_id'') acct rp)
      | Some uid \<Rightarrow>
          (let msg = add_host_envelope host uid (b64_identity (request_obj s)) in
           if Producer_raises w msg \<noteq> None
           then Some (KafkaMsgHandlerError (UnboundLocalError ''producer'') acct rp)
           else (case flush_raises w msg of
                   Some e \<Rightarrow> Some (KafkaMsgHandlerError e acct rp)
                 | None \<Rightarrow>
                     (case first_raised w msg of
                        None \<Rightarrow> None
                      | Some e \<Rightarrow>
                          if e = KafkaException then None
                          else Some (KafkaMsgHandlerError e acct rp)))))"
proof (cases "map_of host ''system_unique_id''")
  case None
  then show ?thesis
    using assms
    by (simp add: upload_to_host_inventory_via_kafka_def upload_try_def subscript_def log_to_def)
next
  case (Some uid)
  let ?msg = "add_host_envelope host uid (b64_identity (request_obj s))"
  obtain s1 r where sm: "send_message w ?msg (request_id (request_obj s)) s = (s1, r)"
    by (cases "send_message w ?msg (request_id (request_obj s)) s")
  have s1: "request_obj s1 = request_obj s"
    using send_message_extra [of w ?msg "request_id (request_obj s)" s] sm by simp
  have r: "r = snd (send_message w ?msg (request_id (request_obj s)) s)"
    using sm by simp
  have up: "upload_try w host s = (s1, r)"
    using Some sm by (simp add: upload_try_def subscript_def add_host_envelope_def)
  show ?thesis
    using assms Some s1
    by (cases r)
       (auto simp: upload_to_host_inventory_via_kafka_def up subscript_def log_to_def
          r send_message_raises Let_def split: option.splits if_splits)
qed

text \<open>
  The claim C4 as stated fails: when \<^verbatim>\<open>produce\<close> raises \<^verbatim>\<open>KafkaException\<close>, the call
  returns normally, nothing is published, and the exception is only logged.
\<close>

theorem upload_swallows_KafkaException_counterexample:
  "produce_raises broker_down_world
     (add_host_envelope host_x (JStr ''sys-1'') (b64_identity (request_obj validated_state)))
     = Some KafkaException
   \<and> snd (upload_to_host_inventory_via_kafka broker_down_world host_x validated_state) = None
   \<and> published (fst (upload_to_host_inventory_via_kafka broker_down_world host_x validated_state)) = []
   \<and> logged (fst (upload_to_host_inventory_via_kafka broker_down_world host_x validated_state))
       = [(EXCEPTION, ''Failed to produce message to topic'')]"
  by (simp add: upload_to_host_inventory_via_kafka_def upload_try_def subscript_def
        send_message_def send_try_def log_to_def broker_down_world_def calm_world_def
        host_x_def validated_state_def set_extra_def fresh_state_def fresh_request_def)

theorem upload_raises_typed_error_witness:
  "snd (upload_to_host_inventory_via_kafka
          ((calm_world (Inr []) [])\<lparr>produce_raises := (\<lambda>msg. Some (OtherError ''BufferError''))\<rparr>)
          host_x validated_state)
     = Some (KafkaMsgHandlerError (OtherError ''BufferError'') (JStr ''acct-1'') (JStr ''rp-1''))
   \<and> snd (upload_to_host_inventory_via_kafka broker_down_world host_x validated_state) = None"
proof -
  have a: "map_of host_x ''account'' = Some (JStr ''acct-1'')"
    by (simp add: host_x_def)
  have b: "map_of (extra (request_obj validated_state)) ''report_platform_id'' = Some (JStr ''rp-1'')"
    by (simp add: validated_state_def set_extra_def)
  show ?thesis
    using upload_raises_typed_error [OF a b, of "(calm_world (Inr []) [])\<lparr>produce_raises := (\<lambda>msg. Some (OtherError ''BufferError''))\<rparr>"]
      upload_raises_typed_error [OF a b, of broker_down_world]
    by (simp add: host_x_def first_raised_def calm_world_def broker_down_world_def)
qed

section \<open>The claims about the orchestrator\<close>

lemmas run_defs = process_slices_def process_slice_def process_host_def process_candidate_def
  print_transformed_info_def upload_to_host_inventory_via_kafka_def upload_try_def
  send_message_def send_try_def subscript_def log_to_def set_extra_def get_def get_default_def
  has_canonical_facts_def CANONICAL_FACTS_def calm_world_def config_enabled_def
  slice_one_candidate_def host_x_def validated_state_def fresh_state_def
  fresh_request_def host_x_published_def add_host_envelope_def Let_def

lemmas report_defs = process_report_def download_report_def extract_report_slices_def
  extract_try_def validated_slices_def read_report_slice_def sublist_code metadata_member_def
  consumed_def

text \<open>
  C1 does not hold of the code. The test \<^verbatim>\<open>if not candidate_hosts\<close> stands inside the
  loop over the slices, where \<^verbatim>\<open>candidate_hosts\<close> holds the candidates of the current
  slice only. With two accepted slices, one holding a candidate and one holding none,
  the run raises \<^verbatim>\<open>QPCReportException\<close> in either order: with the empty slice first
  before anything is published, with the empty slice second after the candidate of
  the first slice has been published. And with no accepted slice at all the run
  completes without the exception.
\<close>

theorem slice_without_candidates_fails_run:
  "snd (process_slices (calm_world (Inr []) []) config_enabled
          (Some [slice_no_candidate, slice_one_candidate]) validated_state) = Inl QPCReportException
   \<and> published (fst (process_slices (calm_world (Inr []) []) config_enabled
          (Some [slice_no_candidate, slice_one_candidate]) validated_state)) = []
   \<and> snd (process_slices (calm_world (Inr []) []) config_enabled
          (Some [slice_one_candidate, slice_no_candidate]) validated_state) = Inl QPCReportException
   \<and> published (fst (process_slices (calm_world (Inr []) []) config_enabled
          (Some [slice_one_candidate, slice_no_candidate]) validated_state))
       = [add_host_envelope host_x_published (JStr ''sys-1'') (JStr ''aWRlbnRpdHk='')]
   \<and> snd (process_slices (calm_world (Inr []) []) config_enabled (Some []) validated_state) = Inr ()"
  by (simp add: run_defs slice_no_candidate_def)

text \<open>
  C3 does not hold of the code. With \<^verbatim>\<open>HOSTS_TRANSFORMATION_ENABLED\<close> false the local
  \<^verbatim>\<open>transformed_obj\<close> is never assigned, and the call of \<^verbatim>\<open>print_transformed_info\<close>
  for the first candidate raises \<^verbatim>\<open>UnboundLocalError\<close> before the record is published.
  The same report with the flag true and no modifier registered completes and
  publishes the record.
\<close>

theorem disabled_transformation_raises:
  "snd (process_report
          (calm_world (Inr [metadata_member,
                            \<lparr>name = ''slice_s1.json'', payload = Parsed slice_one_candidate\<rparr>])
                      [(''s1'', 1)])
          config_disabled consumed fresh_state) = Inl (UnboundLocalError ''transformed_obj'')
   \<and> published (fst (process_report
          (calm_world (Inr [metadata_member,
                            \<lparr>name = ''slice_s1.json'', payload = Parsed slice_one_candidate\<rparr>])
                      [(''s1'', 1)])
          config_disabled consumed fresh_state)) = []
   \<and> snd (process_report
          (calm_world (Inr [metadata_member,
                            \<lparr>name = ''slice_s1.json'', payload = Parsed slice_one_candidate\<rparr>])
                      [(''s1'', 1)])
          config_enabled consumed fresh_state) = Inr ()
   \<and> published (fst (process_report
          (calm_world (Inr [metadata_member,
                            \<lparr>name = ''slice_s1.json'', payload = Parsed slice_one_candidate\<rparr>])
                      [(''s1'', 1)])
          config_enabled consumed fresh_state))
       = [add_host_envelope host_x_published (JStr ''sys-1'') (JStr ''aWRlbnRpdHk='')]"
  by (simp add: run_defs report_defs config_disabled_def)

lemma validated_slices_not_ValueError:
  "snd (validated_slices w files json_files metadata_file s) = Inl e \<Longrightarrow> \<not> is_ValueError e"
  by (auto simp: validated_slices_def split: prod.splits sum.splits if_splits)

lemma extract_try_not_ValueError:
  "snd (extract_try w (Inr files) s) = Inl e \<Longrightarrow> \<not> is_ValueError e"
  by (auto simp: extract_try_def split: prod.splits option.splits if_splits
      dest: validated_slices_not_ValueError)

text \<open>
  C10. Let the download succeed and let the body of \<^verbatim>\<open>extract_report_slices\<close> raise an
  exception that is neither a \<^verbatim>\<open>FailExtractException\<close> nor a \<^verbatim>\<open>tarfile.ReadError\<close>
  (a \<^verbatim>\<open>ValueError\<close> of the validation or of the loops never gets that far: the inner
  handler has turned it into \<^verbatim>\<open>FailExtractException\<close>). Then the function raises
  nothing: it logs one error line and returns \<^verbatim>\<open>None\<close>, and \<^verbatim>\<open>process_report\<close>, which
  iterates over the returned value, raises \<^verbatim>\<open>TypeError\<close>. The exception is the one of
  \<^verbatim>\<open>tarfile.open\<close> for an unreadable archive, and never a \<^verbatim>\<open>ValueError\<close> for a
  readable one.
\<close>

theorem unexpected_error_returns_None:
  assumes "download_report w consumed_message
             (s0\<lparr>request_obj :=
                   \<lparr>account = get consumed_message ''account'',
                    b64_identity = get consumed_message ''b64_identity'',
                    request_id = get consumed_message ''request_id'',
                    extra = []\<rparr>\<rparr>) = (s, Inr report_tar)"
    and "snd (extract_try w report_tar s) = Inl e"
    and "\<not> is_FailExtractException e" and "e \<noteq> ReadError"
  shows "snd (extract_report_slices w report_tar s) = Inr None
         \<and> logged (fst (extract_report_slices w report_tar s)) =
             logged (fst (extract_try w report_tar s))
             @ [(ERROR, ''Unexpected error reading tar file'')]
         \<and> snd (process_report w cfg consumed_message s0) = Inl TypeError
         \<and> (case report_tar of Inl e' \<Rightarrow> e = e' | Inr files \<Rightarrow> \<not> is_ValueError e)"
proof -
  have origin: "case report_tar of Inl e' \<Rightarrow> e = e' | Inr files \<Rightarrow> \<not> is_ValueError e"
    using assms(2) extract_try_not_ValueError
    by (cases report_tar) (auto simp: extract_try_def)
  obtain s' where body: "extract_try w report_tar s = (s', Inl e)"
    using assms(2) by (cases "extract_try w report_tar s") simp
  have ex: "extract_report_slices w report_tar s =
              (log_to ERROR ''Unexpected error reading tar file'' s', Inr None)"
    using assms(3) assms(4) by (simp add: extract_report_slices_def body)
  have "process_report w cfg consumed_message s0 =
          process_slices w cfg None (log_to ERROR ''Unexpected error reading tar file'' s')"
    by (simp add: process_report_def assms(1) ex Let_def)
  then have "snd (process_report w cfg consumed_message s0) = Inl TypeError"
    by (simp add: process_slices_def)
  then show ?thesis
    using origin by (simp add: ex body log_to_def)
qed

theorem unexpected_error_returns_None_witness:
  "snd (extract_report_slices
          (calm_world (Inr [metadata_member,
                            \<lparr>name = ''slice_s1.json'', payload = Unreadable (OtherError ''OSError'')\<rparr>])
                      [(''s1'', 2)])
          (Inr [metadata_member,
                \<lparr>name = ''slice_s1.json'', payload = Unreadable (OtherError ''OSError'')\<rparr>])
          (log_to INFO ''Successfully downloaded TAR'' (log_to INFO ''Downloading Report'' fresh_state)))
     = Inr None
   \<and> snd (process_report
          (calm_world (Inr [metadata_member,
                            \<lparr>name = ''slice_s1.json'', payload = Unreadable (OtherError ''OSError'')\<rparr>])
                      [(''s1'', 2)])
          config_enabled consumed fresh_state) = Inl TypeError"
proof -
  let ?tar = "Inr [metadata_member,
                \<lparr>name = ''slice_s1.json'', payload = Unreadable (OtherError ''OSError'')\<rparr>] :: tar_bytes"
  let ?w = "calm_world ?tar [(''s1'', 2)]"
  let ?s = "log_to INFO ''Successfully downloaded TAR'' (log_to INFO ''Downloading Report'' fresh_state)"
  have h1: "download_report ?w consumed
             (fresh_state\<lparr>request_obj :=
                   \<lparr>account = get consumed ''account'',
                    b64_identity = get consumed ''b64_identity'',
                    request_id = get consumed ''request_id'',
                    extra = []\<rparr>\<rparr>) = (?s, Inr ?tar)"
    by (simp add: download_report_def consumed_def get_def get_default_def calm_world_def
          fresh_state_def fresh_request_def log_to_def)
  have h2: "snd (extract_try ?w ?tar ?s) = Inl (OtherError ''OSError'')"
    by (simp add: extract_try_def validated_slices_def read_report_slice_def sublist_code
          metadata_member_def calm_world_def log_to_def set_extra_def Let_def)
  have h3: "\<not> is_FailExtractException (OtherError ''OSError'')"
    by simp
  have h4: "OtherError ''OSError'' \<noteq> ReadError"
    by simp
  show ?thesis
    using unexpected_error_returns_None [OF h1 h2 h3 h4, of config_enabled] by simp
qed


section \<open>What a run publishes\<close>

lemma pe_refl [simp]: "publishes_envelopes s s"
  by (simp add: publishes_envelopes_def)

lemma pe_trans: "publishes_envelopes s s' \<Longrightarrow> publishes_envelopes s' s'' \<Longrightarrow> publishes_envelopes s s''"
  by (auto simp: publishes_envelopes_def)

lemma pe_log [simp]: "publishes_envelopes s (log_to lv msg s') = publishes_envelopes s s'"
  by (simp add: publishes_envelopes_def log_to_def)

lemma pe_set_extra [simp]: "publishes_envelopes s (set_extra ex s') = publishes_envelopes s s'"
  by (simp add: publishes_envelopes_def set_extra_def)

lemma pe_uuid [simp]: "publishes_envelopes s (s'\<lparr>uuids_drawn := n\<rparr>) = publishes_envelopes s s'"
  by (simp add: publishes_envelopes_def)

lemma pe_from_set_extra: "publishes_envelopes (set_extra ex s) s' \<Longrightarrow> publishes_envelopes s s'"
  by (simp add: publishes_envelopes_def set_extra_def)

lemma pe_from_uuid: "publishes_envelopes (s\<lparr>uuids_drawn := n\<rparr>) s' \<Longrightarrow> publishes_envelopes s s'"
  by (simp add: publishes_envelopes_def)

lemma pe_send_message:
  assumes "map_of host ''system_unique_id'' = Some uid"
    and "send_message w (add_host_envelope host uid (b64_identity (request_obj s))) rid s = (s', r)"
  shows "publishes_envelopes s s'"
  using assms
  by (auto simp: send_message_def send_try_def publishes_envelopes_def log_to_def Let_def
        well_formed_envelope_def add_host_envelope_def
      split: option.splits if_splits)

lemma pe_upload_try:
  "upload_try w host s = (s', r) \<Longrightarrow> publishes_envelopes s s'"
  by (auto simp: upload_try_def subscript_def add_host_envelope_def [symmetric]
      split: option.splits dest: pe_send_message)

lemma pe_upload:
  "upload_to_host_inventory_via_kafka w host s = (s', r) \<Longrightarrow> publishes_envelopes s s'"
  by (auto simp: upload_to_host_inventory_via_kafka_def Let_def
      split: prod.splits option.splits sum.splits dest!: pe_upload_try)

lemma pe_print:
  "print_transformed_info host_id t s = (s', r) \<Longrightarrow> publishes_envelopes s s'"
  by (auto simp: print_transformed_info_def Let_def split: option.splits sum.splits if_splits)

lemma pe_run_modifiers:
  "run_modifiers ms host t s = (s', r) \<Longrightarrow> publishes_envelopes s s'"
proof (induction ms arbitrary: host t s)
  case Nil
  then show ?case by auto
next
  case (Cons m ms)
  show ?case
  proof (cases "m host t (request_obj s)")
    case (Inl e)
    with Cons.prems show ?thesis by auto
  next
    case (Inr res)
    obtain host' t' ex where res: "res = (host', t', ex)"
      by (cases res)
    have "run_modifiers ms host' t' (set_extra ex s) = (s', r)"
      using Cons.prems Inr res by simp
    then have "publishes_envelopes (set_extra ex s) s'"
      by (rule Cons.IH)
    then show ?thesis
      by (rule pe_from_set_extra)
  qed
qed

lemma pe_read_report_slice:
  "read_report_slice report_id num_hosts f report_files s = (s', r) \<Longrightarrow> publishes_envelopes s s'"
  by (auto simp: read_report_slice_def Let_def split: contents.splits json.splits sum.splits if_splits)

lemma pe_download_report:
  "download_report w consumed_message s = (s', r) \<Longrightarrow> publishes_envelopes s s'"
  by (auto simp: download_report_def Let_def split: sum.splits if_splits)

lemma pe_process_candidate:
  assumes "process_candidate w cfg slice_id total_hosts yid host0 l s = (s', r)"
  shows "publishes_envelopes s s'"
proof -
  let ?host1 = "AList.update ''report_slice_id'' slice_id host0"
  let ?l1 = "l\<lparr>candidate_hosts := candidate_hosts l @ [(yid, ?host1)]\<rparr>"
  let ?chain = "if HOSTS_TRANSFORMATION_ENABLED cfg
               then (case run_modifiers (get_modifiers cfg) ?host1
                            \<lparr>removed = [], modified = [], missing_data = []\<rparr> s of
                       (s', Inl e) \<Rightarrow> (s', Inl e)
                     | (s', Inr (h, t)) \<Rightarrow> (s', Inr (h, Some t)))
               else (s, Inr (?host1, transformed_obj ?l1))"
  obtain s1 r1 where chain: "?chain = (s1, r1)"
    by (cases ?chain)
  have 1: "publishes_envelopes s s1"
    using chain
    by (auto split: if_splits prod.splits sum.splits dest: pe_run_modifiers)
  have rest: "(case r1 of
           Inl e \<Rightarrow> (s1, Inl e)
         | Inr (host, tobj) \<Rightarrow>
             (let l2 = ?l1\<lparr>count := count ?l1 + 1, transformed_obj := tobj\<rparr> in
              case subscript host ''yupana_host_id'' of
                Inl e \<Rightarrow> (s1, Inl e)
              | Inr host_id \<Rightarrow>
                  (case tobj of
                     None \<Rightarrow> (s1, Inl (UnboundLocalError ''transformed_obj''))
                   | Some t \<Rightarrow>
                       (case print_transformed_info host_id (Some t) s1 of
                          (s2, Some e) \<Rightarrow> (s2, Inl e)
                        | (s2, None) \<Rightarrow>
                            (case upload_to_host_inventory_via_kafka w host s2 of
                               (s3, Some e) \<Rightarrow> (s3, Inl e)
                             | (s3, None) \<Rightarrow>
                                 if HOSTS_UPLOAD_FUTURES_COUNT cfg = 0
                                 then (s3, Inl ZeroDivisionError)
                                 else if count l2 mod HOSTS_UPLOAD_FUTURES_COUNT cfg = 0
                                         \<or> count l2 = total_hosts
                                 then (case subscript (extra (request_obj s3))
                                              ''report_platform_id'' of
                                         Inl e \<Rightarrow> (s3, Inl e)
                                       | Inr rp \<Rightarrow>
                                           (log_to INFO
                                              ''Sending hosts to the inventory service'' s3,
                                            Inr l2))
                                 else (s3, Inr l2)))))) = (s', r)"
    using assms unfolding process_candidate_def Let_def chain by simp
  have 2: "publishes_envelopes s1 s'"
  proof (cases r1)
    case (Inl e)
    with rest show ?thesis by simp
  next
    case (Inr ht)
    obtain host tobj where ht: "ht = (host, tobj)"
      by (cases ht)
    show ?thesis
    proof (cases "subscript host ''yupana_host_id''")
      case (Inl e)
      with rest Inr ht show ?thesis by simp
    next
      case hid: (Inr host_id)
      show ?thesis
      proof (cases tobj)
        case None
        with rest Inr ht hid show ?thesis by simp
      next
        case (Some t)
        obtain s2 p where pr: "print_transformed_info host_id (Some t) s1 = (s2, p)"
          by (cases "print_transformed_info host_id (Some t) s1")
        have 12: "publishes_envelopes s1 s2"
          using pr by (rule pe_print)
        show ?thesis
        proof (cases p)
          case (Some e)
          with rest Inr ht hid \<open>tobj = Some t\<close> pr 12 show ?thesis by simp
        next
          case None
          obtain s3 u where up: "upload_to_host_inventory_via_kafka w host s2 = (s3, u)"
            by (cases "upload_to_host_inventory_via_kafka w host s2")
          have 23: "publishes_envelopes s2 s3"
            using up by (rule pe_upload)
          have 13: "publishes_envelopes s1 s3"
            using 12 23 by (rule pe_trans)
          have "s' = s3 \<or> s' = log_to INFO ''Sending hosts to the inventory service'' s3"
            using rest Inr ht hid \<open>tobj = Some t\<close> pr None up
            by (auto simp: Let_def split: option.splits if_splits sum.splits)
          with 13 show ?thesis by auto
        qed
      qed
    qed
  qed
  from 1 2 show ?thesis by (rule pe_trans)
qed

lemma pe_process_host:
  assumes "process_host w cfg slice_id total_hosts host_value l s = (s', r)"
  shows "publishes_envelopes s s'"
proof (cases host_value)
  case (JObj h)
  let ?s1 = "s\<lparr>uuids_drawn := Suc (uuids_drawn s)\<rparr>"
  let ?host = "AList.update ''yupana_host_id'' (JStr (uuid4 w (uuids_drawn s))) h"
  show ?thesis
  proof (cases "has_canonical_facts ?host")
    case True
    then have "process_candidate w cfg slice_id total_hosts (uuid4 w (uuids_drawn s)) ?host l ?s1 = (s', r)"
      using assms JObj by (simp add: process_host_def Let_def)
    then have "publishes_envelopes ?s1 s'"
      by (rule pe_process_candidate)
    then show ?thesis
      by (rule pe_from_uuid)
  next
    case False
    then have "s' = ?s1"
      using assms JObj by (simp add: process_host_def Let_def)
    then show ?thesis by simp
  qed
qed (use assms in \<open>auto simp: process_host_def Let_def\<close>)

lemma pe_hosts_loop:
  "hosts_loop w cfg slice_id total_hosts hs l s = (s', r) \<Longrightarrow> publishes_envelopes s s'"
proof (induction hs arbitrary: l s)
  case Nil
  then show ?case by auto
next
  case (Cons h hs)
  obtain s1 r1 where step: "process_host w cfg slice_id total_hosts h l s = (s1, r1)"
    by (cases "process_host w cfg slice_id total_hosts h l s")
  have 1: "publishes_envelopes s s1"
    using step by (rule pe_process_host)
  show ?case
  proof (cases r1)
    case (Inl e)
    with Cons.prems step 1 show ?thesis by simp
  next
    case (Inr l')
    with Cons.prems step have "hosts_loop w cfg slice_id total_hosts hs l' s1 = (s', r)"
      by simp
    then have "publishes_envelopes s1 s'"
      by (rule Cons.IH)
    with 1 show ?thesis by (rule pe_trans)
  qed
qed

lemma pe_process_slice:
  "process_slice w cfg report_slice tobj s = (s', r) \<Longrightarrow> publishes_envelopes s s'"
  by (auto simp: process_slice_def Let_def split: json.splits prod.splits sum.splits if_splits
      dest!: pe_hosts_loop)

lemma pe_slices_loop:
  "slices_loop w cfg slices tobj s = (s', r) \<Longrightarrow> publishes_envelopes s s'"
proof (induction slices arbitrary: tobj s)
  case Nil
  then show ?case by auto
next
  case (Cons sl slices)
  obtain s1 r1 where step: "process_slice w cfg sl tobj s = (s1, r1)"
    by (cases "process_slice w cfg sl tobj s")
  have 1: "publishes_envelopes s s1"
    using step by (rule pe_process_slice)
  show ?case
  proof (cases r1)
    case (Inl e)
    with Cons.prems step 1 show ?thesis by simp
  next
    case (Inr tobj')
    with Cons.prems step have "slices_loop w cfg slices tobj' s1 = (s', r)"
      by simp
    then have "publishes_envelopes s1 s'"
      by (rule Cons.IH)
    with 1 show ?thesis by (rule pe_trans)
  qed
qed

lemma pe_process_slices:
  "process_slices w cfg report_json_files s = (s', r) \<Longrightarrow> publishes_envelopes s s'"
  by (auto simp: process_slices_def split: option.splits dest: pe_slices_loop)

lemma pe_files_loop:
  "files_loop report_id num_hosts fs report_files s = (s', r) \<Longrightarrow> publishes_envelopes s s'"
proof (induction fs arbitrary: report_files s)
  case Nil
  then show ?case by auto
next
  case (Cons f fs)
  show ?case
  proof (cases "sublist report_id (name f)")
    case False
    with Cons.prems have "files_loop report_id num_hosts fs report_files s = (s', r)"
      by simp
    then show ?thesis by (rule Cons.IH)
  next
    case True
    obtain s1 r1 where step: "read_report_slice report_id num_hosts f report_files s = (s1, r1)"
      by (cases "read_report_slice report_id num_hosts f report_files s")
    have 1: "publishes_envelopes s s1"
      using step by (rule pe_read_report_slice)
    show ?thesis
    proof (cases r1)
      case (Inl e)
      with Cons.prems True step 1 show ?thesis by simp
    next
      case (Inr rf)
      with Cons.prems True step have "files_loop report_id num_hosts fs rf s1 = (s', r)"
        by simp
      then have "publishes_envelopes s1 s'"
        by (rule Cons.IH)
      with 1 show ?thesis by (rule pe_trans)
    qed
  qed
qed

lemma pe_slice_ids_loop:
  "slice_ids_loop items json_files report_files s = (s', r) \<Longrightarrow> publishes_envelopes s s'"
proof (induction items arbitrary: report_files s)
  case Nil
  then show ?case by auto
next
  case (Cons item items)
  obtain report_id num_hosts where item: "item = (report_id, num_hosts)"
    by (cases item)
  obtain s1 r1 where step: "files_loop report_id num_hosts json_files report_files s = (s1, r1)"
    by (cases "files_loop report_id num_hosts json_files report_files s")
  have 1: "publishes_envelopes s s1"
    using step by (rule pe_files_loop)
  show ?case
  proof (cases r1)
    case (Inl e)
    with Cons.prems item step 1 show ?thesis by simp
  next
    case (Inr rf)
    with Cons.prems item step have "slice_ids_loop items json_files rf s1 = (s', r)"
      by simp
    then have "publishes_envelopes s1 s'"
      by (rule Cons.IH)
    with 1 show ?thesis by (rule pe_trans)
  qed
qed

lemma pe_validated_slices:
  assumes "validated_slices w files json_files metadata_file s = (s', r)"
  shows "publishes_envelopes s s'"
proof -
  obtain ex v where v: "validate_metadata_file w files metadata_file (request_obj s) = (ex, v)"
    by (cases "validate_metadata_file w files metadata_file (request_obj s)")
  show ?thesis
  proof (cases v)
    case (Inl e)
    with assms v have "s' = set_extra ex s"
      by (auto simp: validated_slices_def split: if_splits)
    then show ?thesis by simp
  next
    case (Inr items)
    obtain s1 r1 where loop: "slice_ids_loop items json_files [] (set_extra ex s) = (s1, r1)"
      by (cases "slice_ids_loop items json_files [] (set_extra ex s)")
    have "publishes_envelopes (set_extra ex s) s1"
      using loop by (rule pe_slice_ids_loop)
    then have "publishes_envelopes s s1"
      by (rule pe_from_set_extra)
    moreover have "s' = s1"
      using assms v Inr loop by (auto simp: validated_slices_def split: sum.splits if_splits)
    ultimately show ?thesis by simp
  qed
qed

lemma pe_extract_try:
  "extract_try w report_tar s = (s', r) \<Longrightarrow> publishes_envelopes s s'"
  by (auto simp: extract_try_def split: prod.splits sum.splits option.splits if_splits
      dest!: pe_validated_slices)

lemma pe_extract_report_slices:
  "extract_report_slices w report_tar s = (s', r) \<Longrightarrow> publishes_envelopes s s'"
  by (auto simp: extract_report_slices_def split: prod.splits sum.splits if_splits
      dest!: pe_extract_try)

lemma pe_process_report:
  assumes "process_report w cfg consumed_message s = (s', r)"
  shows "\<exists>new. published s' = published s @ new
           \<and> list_all (well_formed_envelope (get consumed_message ''b64_identity'')) new"
proof -
  let ?s0 = "s\<lparr>request_obj :=
                   \<lparr>account = get consumed_message ''account'',
                    b64_identity = get consumed_message ''b64_identity'',
                    request_id = get consumed_message ''request_id'',
                    extra = []\<rparr>\<rparr>"
  obtain s1 r1 where dl: "download_report w consumed_message ?s0 = (s1, r1)"
    by (cases "download_report w consumed_message ?s0")
  have 1: "publishes_envelopes ?s0 s1"
    using dl by (rule pe_download_report)
  have "publishes_envelopes ?s0 s'"
  proof (cases r1)
    case (Inl e)
    with assms dl 1 show ?thesis
      by (simp add: process_report_def Let_def)
  next
    case (Inr report_tar)
    obtain s2 r2 where ex: "extract_report_slices w report_tar s1 = (s2, r2)"
      by (cases "extract_report_slices w report_tar s1")
    have 2: "publishes_envelopes ?s0 s2"
      using 1 pe_extract_report_slices [OF ex] by (rule pe_trans)
    show ?thesis
    proof (cases r2)
      case (Inl e)
      with assms dl Inr ex 2 show ?thesis
        by (simp add: process_report_def Let_def)
    next
      case rjf: (Inr report_json_files)
      with assms dl Inr ex have "process_slices w cfg report_json_files s2 = (s', r)"
        by (simp add: process_report_def Let_def)
      then have "publishes_envelopes s2 s'"
        by (rule pe_process_slices)
      with 2 show ?thesis by (rule pe_trans)
    qed
  qed
  then show ?thesis
    by (simp add: publishes_envelopes_def)
qed

lemma send_message_published:
  "published (fst (send_message w msg rid s)) = published s
   \<or> published (fst (send_message w msg rid s)) = published s @ [msg]"
  by (simp add: send_message_def send_try_def log_to_def Let_def split: option.splits)

text \<open>
  C9. Whatever \<^verbatim>\<open>upload_to_host_inventory_via_kafka\<close> publishes for a record is one
  message: the envelope with operation \<^verbatim>\<open>add_host\<close>, with the record itself as data,
  and with the platform metadata made of the record's \<^verbatim>\<open>system_unique_id\<close> as
  \<^verbatim>\<open>request_id\<close> and the \<^verbatim>\<open>b64_identity\<close> of the request context. And over a whole run
  of \<^verbatim>\<open>process_report\<close>, whatever the world, the configuration and the modifiers do,
  every message published has operation \<^verbatim>\<open>add_host\<close>, the \<^verbatim>\<open>system_unique_id\<close> of its
  own data as \<^verbatim>\<open>request_id\<close>, and as \<^verbatim>\<open>b64_identity\<close> the one of the consumed message.
\<close>

theorem published_envelope_shape:
  "(published (fst (upload_to_host_inventory_via_kafka w host s)) = published s
    \<or> (\<exists>uid. map_of host ''system_unique_id'' = Some uid
          \<and> published (fst (upload_to_host_inventory_via_kafka w host s)) =
              published s @ [\<lparr>operation = ''add_host'', data = host,
                               platform_metadata =
                                 [(''request_id'', uid),
                                  (''b64_identity'', b64_identity (request_obj s))]\<rparr>]))
   \<and> (\<exists>new. published (fst (process_report w cfg consumed_message s0)) = published s0 @ new
          \<and> (\<forall>msg \<in> set new.
                operation msg = ''add_host''
                \<and> (\<exists>uid. map_of (data msg) ''system_unique_id'' = Some uid
                      \<and> platform_metadata msg =
                          [(''request_id'', uid),
                           (''b64_identity'', get consumed_message ''b64_identity'')])))"
proof
  show "published (fst (upload_to_host_inventory_via_kafka w host s)) = published s
    \<or> (\<exists>uid. map_of host ''system_unique_id'' = Some uid
          \<and> published (fst (upload_to_host_inventory_via_kafka w host s)) =
              published s @ [\<lparr>operation = ''add_host'', data = host,
                               platform_metadata =
                                 [(''request_id'', uid),
                                  (''b64_identity'', b64_identity (request_obj s))]\<rparr>])"
  proof (cases "map_of host ''system_unique_id''")
    case None
    then show ?thesis
      by (simp add: upload_to_host_inventory_via_kafka_def upload_try_def subscript_def
            log_to_def Let_def split: sum.splits)
  next
    case (Some uid)
    let ?msg = "\<lparr>operation = ''add_host'', data = host,
                 platform_metadata =
                   [(''request_id'', uid), (''b64_identity'', b64_identity (request_obj s))]\<rparr>"
    have "published (fst (upload_to_host_inventory_via_kafka w host s)) =
            published (fst (send_message w ?msg (request_id (request_obj s)) s))"
      using Some
      by (simp add: upload_to_host_inventory_via_kafka_def upload_try_def subscript_def
            log_to_def Let_def split: prod.splits option.splits sum.splits)
    with Some send_message_published [of w ?msg "request_id (request_obj s)" s]
    show ?thesis by auto
  qed
next
  obtain s' r where run: "process_report w cfg consumed_message s0 = (s', r)"
    by (cases "process_report w cfg consumed_message s0")
  from pe_process_report [OF run] obtain new where
    new: "published s' = published s0 @ new"
      "list_all (well_formed_envelope (get consumed_message ''b64_identity'')) new"
    by blast
  have "\<forall>msg \<in> set new.
          operation msg = ''add_host''
          \<and> (\<exists>uid. map_of (data msg) ''system_unique_id'' = Some uid
                \<and> platform_metadata msg =
                    [(''request_id'', uid),
                     (''b64_identity'', get consumed_message ''b64_identity'')])"
  proof
    fix msg assume "msg \<in> set new"
    with new(2) have "well_formed_envelope (get consumed_message ''b64_identity'') msg"
      by (simp add: list_all_iff)
    then obtain uid where uid: "map_of (data msg) ''system_unique_id'' = Some uid"
      and msg: "msg = add_host_envelope (data msg) uid (get consumed_message ''b64_identity'')"
      by (auto simp: well_formed_envelope_def split: option.splits)
    have "operation msg = ''add_host''"
      by (subst msg) (simp add: add_host_envelope_def)
    moreover have "platform_metadata msg =
        [(''request_id'', uid), (''b64_identity'', get consumed_message ''b64_identity'')]"
      by (subst msg) (simp add: add_host_envelope_def)
    ultimately show "operation msg = ''add_host''
          \<and> (\<exists>uid. map_of (data msg) ''system_unique_id'' = Some uid
                \<and> platform_metadata msg =
                    [(''request_id'', uid),
                     (''b64_identity'', get consumed_message ''b64_identity'')])"
      using uid by simp
  qed
  with new(1) run show "\<exists>new. published (fst (process_report w cfg consumed_message s0)) = published s0 @ new
          \<and> (\<forall>msg \<in> set new.
                operation msg = ''add_host''
                \<and> (\<exists>uid. map_of (data msg) ''system_unique_id'' = Some uid
                      \<and> platform_metadata msg =
                          [(''request_id'', uid),
                           (''b64_identity'', get consumed_message ''b64_identity'')]))"
    by auto
qed


theorem published_envelope_shape_witness:
  "published (fst (upload_to_host_inventory_via_kafka
          (calm_world (Inr [metadata_member,
                            \<lparr>name = ''slice_s1.json'', payload = Parsed slice_one_candidate\<rparr>])
                      [(''s1'', 1)])
          host_x validated_state))
     = [\<lparr>operation = ''add_host'', data = host_x,
         platform_metadata =
           [(''request_id'', JStr ''sys-1''), (''b64_identity'', JStr ''aWRlbnRpdHk='')]\<rparr>]
   \<and> published (fst (process_report
          (calm_world (Inr [metadata_member,
                            \<lparr>name = ''slice_s1.json'', payload = Parsed slice_one_candidate\<rparr>])
                      [(''s1'', 1)])
          config_enabled consumed fresh_state))
     = [\<lparr>operation = ''add_host'', data = host_x_published,
         platform_metadata =
           [(''request_id'', JStr ''sys-1''), (''b64_identity'', JStr ''aWRlbnRpdHk='')]\<rparr>]"
  using published_envelope_shape
    [of "calm_world (Inr [metadata_member,
                          \<lparr>name = ''slice_s1.json'', payload = Parsed slice_one_candidate\<rparr>])
                    [(''s1'', 1)]"
        host_x validated_state config_enabled consumed fresh_state]
  by (simp add: run_defs report_defs)

end
